theory Spec2Isabelle
  imports Complex_Main "HOL-Library.Log_Nat"
begin

section \<open>The ring sky model of generate_ring_sky_model.py\<close>

text \<open>
  The script builds a CASA component list: one central disk, then for every ring an
  outer disk of positive flux and an inner disk of negative flux. This theory embeds the
  part of \<^verbatim>\<open>main\<close> that computes the radii, the areas and the fluxes
  of the rings (lines 54 to 87), the helper \<^verbatim>\<open>add_disk\<close> and the
  output tag (lines 90 and 91).
\<close>

subsection \<open>Python floats\<close>

text \<open>
  A Python float is an IEEE 754 binary64 number: a finite value, an infinity or a NaN.
  The two zeros are one value here, as \<^verbatim>\<open>==\<close> has them; the only place
  where Python tells them apart is the sign it prints.
\<close>

datatype pyfloat = Fin real | PInf | NInf | NaN

text \<open>Rounding a real to the nearest integer, a tie to the even one.\<close>

definition rne :: "real \<Rightarrow> int" where
  "rne z = (let f = \<lfloor>z\<rfloor>; d = z - of_int f in
            if d < 1 / 2 then f else if 1 / 2 < d then f + 1
            else if even f then f else f + 1)"

text \<open>The binary exponent of a positive real: \<open>2 powi ilog2 a \<le> a < 2 powi (ilog2 a + 1)\<close>.\<close>

definition ilog2 :: "real \<Rightarrow> int" where
  "ilog2 a = (if 1 \<le> a then bitlen \<lfloor>a\<rfloor> - 1 else - bitlen (\<lceil>1 / a\<rceil> - 1))"

text \<open>
  The spacing of the binary64 numbers around x: 53 significant bits, and the fixed
  spacing of the subnormal numbers below the least normal exponent - 1022.
\<close>

definition quantum :: "real \<Rightarrow> real" where
  "quantum x = 2 powi (max (ilog2 \<bar>x\<bar>) (- 1022) - 52)"

definition rnd_val :: "real \<Rightarrow> real" where
  "rnd_val x = (if x = 0 then 0 else of_int (rne (x / quantum x)) * quantum x)"

text \<open>
  Rounding to nearest, ties to even, the rounding of every binary64 operation: a result
  of magnitude \<open>2 ^ 1024\<close> or more is an infinity.
\<close>

definition rnd :: "real \<Rightarrow> pyfloat" where
  "rnd x = (let y = rnd_val x in
            if 2 ^ 1024 \<le> y then PInf else if y \<le> - (2 ^ 1024) then NInf else Fin y)"

text \<open>The exponent that \<open>quantum\<close> uses, and the values of the finite floats.\<close>

definition expo :: "real \<Rightarrow> int" where
  "expo x = max (ilog2 \<bar>x\<bar>) (- 1022)"

definition representable :: "real \<Rightarrow> bool" where
  "representable y \<longleftrightarrow> rnd y = Fin y"

text \<open>Python's \<^verbatim>\<open><=\<close> and \<^verbatim>\<open><\<close> on floats: a comparison with a NaN is false.\<close>

fun fle :: "pyfloat \<Rightarrow> pyfloat \<Rightarrow> bool" where
  "fle (Fin x) (Fin y) = (x \<le> y)"
| "fle NaN b = False"
| "fle a NaN = False"
| "fle NInf b = True"
| "fle a PInf = True"
| "fle a b = False"


text \<open>Unary minus, addition, subtraction and multiplication never raise.\<close>

fun fneg :: "pyfloat \<Rightarrow> pyfloat" where
  "fneg (Fin x) = Fin (- x)"
| "fneg PInf = NInf"
| "fneg NInf = PInf"
| "fneg NaN = NaN"

fun fadd :: "pyfloat \<Rightarrow> pyfloat \<Rightarrow> pyfloat" where
  "fadd (Fin x) (Fin y) = rnd (x + y)"
| "fadd NaN b = NaN"
| "fadd a NaN = NaN"
| "fadd PInf NInf = NaN"
| "fadd NInf PInf = NaN"
| "fadd PInf b = PInf"
| "fadd NInf b = NInf"
| "fadd a PInf = PInf"
| "fadd a NInf = NInf"

definition fsub :: "pyfloat \<Rightarrow> pyfloat \<Rightarrow> pyfloat" where
  "fsub a b = fadd a (fneg b)"

text \<open>The sign of a float that is not a NaN, for the products and quotients of infinities.\<close>

fun fsgn :: "pyfloat \<Rightarrow> real" where
  "fsgn (Fin x) = sgn x"
| "fsgn PInf = 1"
| "fsgn NInf = - 1"
| "fsgn NaN = 0"

definition inf_of :: "real \<Rightarrow> pyfloat" where
  "inf_of s = (if s = 0 then NaN else if 0 < s then PInf else NInf)"

fun fmul :: "pyfloat \<Rightarrow> pyfloat \<Rightarrow> pyfloat" where
  "fmul (Fin x) (Fin y) = rnd (x * y)"
| "fmul NaN b = NaN"
| "fmul a NaN = NaN"
| "fmul a b = inf_of (fsgn a * fsgn b)"

text \<open>The IEEE quotient, for a divisor that is not zero.\<close>

fun fdiv :: "pyfloat \<Rightarrow> pyfloat \<Rightarrow> pyfloat" where
  "fdiv (Fin x) (Fin y) = rnd (x / y)"
| "fdiv NaN b = NaN"
| "fdiv a NaN = NaN"
| "fdiv (Fin x) b = Fin 0"
| "fdiv a (Fin y) = inf_of (fsgn a * sgn y)"
| "fdiv a b = NaN"

subsection \<open>Errors\<close>

datatype error = ZeroDivisionError | OverflowError

text \<open>
  Python's \<^verbatim>\<open>x / y\<close> on floats raises when \<^verbatim>\<open>y == 0.0\<close>, whatever
  \<^verbatim>\<open>x\<close> is.
\<close>

definition truediv :: "pyfloat \<Rightarrow> pyfloat \<Rightarrow> error + pyfloat" where
  "truediv x y = (if y = Fin 0 then Inl ZeroDivisionError else Inr (fdiv x y))"

text \<open>
  \<^verbatim>\<open>x ** 2\<close> on a float is C's \<^verbatim>\<open>pow(x, 2.0)\<close>, taken here as the
  correctly rounded square; Python raises \<^verbatim>\<open>OverflowError\<close> when a finite
  \<^verbatim>\<open>x\<close> gives an infinite result, and returns the infinity or the NaN for
  an \<^verbatim>\<open>x\<close> that is one.
\<close>

fun pow2 :: "pyfloat \<Rightarrow> error + pyfloat" where
  "pow2 (Fin x) = (if rnd (x * x) = PInf then Inl OverflowError else Inr (rnd (x * x)))"
| "pow2 PInf = Inr PInf"
| "pow2 NInf = Inr PInf"
| "pow2 NaN = Inr NaN"

text \<open>
  The conversion of the loop index in \<^verbatim>\<open>j * (...)\<close>: the nearest float, and
  \<^verbatim>\<open>OverflowError\<close> for an integer too large to convert.
\<close>

definition float_of_nat :: "nat \<Rightarrow> error + pyfloat" where
  "float_of_nat j = (if rnd (real j) = PInf then Inl OverflowError else Inr (rnd (real j)))"

text \<open>\<^verbatim>\<open>math.pi\<close> is the float \<^verbatim>\<open>0x1.921fb54442d18p+1\<close>.\<close>

definition math_pi :: pyfloat where
  "math_pi = Fin (884279719003555 / 2 ^ 48)"

subsection \<open>The configuration\<close>

text \<open>
  \<^verbatim>\<open>args\<close> is an \<^verbatim>\<open>argparse.Namespace\<close>. The numbers are floats,
  as \<^verbatim>\<open>type=float\<close> of the command line makes them. The three optional
  fluxes are \<^verbatim>\<open>None\<close> when they are not given (lines 123 to 125 and the
  defaults of lines 141 to 143).
\<close>

record args =
  ra_center :: string
  dec_center :: string
  freq :: string
  n_rings :: int
  central_diameter :: pyfloat
  ring_thickness :: pyfloat
  ring_spacing :: pyfloat
  flux :: pyfloat
  central_flux :: "pyfloat option"
  ring_flux :: "pyfloat option"
  ring_surface_brightness :: "pyfloat option"
  output_base :: string

text \<open>
  The defaults of the command line (lines 130 to 149); a decimal string becomes the
  nearest float.
\<close>

definition default_args :: args where
  "default_args =
     \<lparr>ra_center = ''12h00m00.00s'', dec_center = ''-23d00m00.00'', freq = ''343.5GHz'',
      n_rings = 3, central_diameter = rnd (45 / 10000), ring_thickness = rnd (45 / 10000),
      ring_spacing = rnd (90 / 10000), flux = rnd (27 / 100000), central_flux = None,
      ring_flux = None, ring_surface_brightness = None, output_base = ''ringModel''\<rparr>"

subsection \<open>The component list\<close>

text \<open>
  One entry of the component list holds the keyword arguments of
  \<^verbatim>\<open>cl.addcomponent\<close>. The axes are the strings
  \<^verbatim>\<open>f"{diameter_arcsec}arcsec"\<close>; the model keeps the number and the
  unit apart instead of printing the number.
\<close>

type_synonym quantity = "pyfloat \<times> string"

record component =
  dir :: string
  flux :: pyfloat
  fluxunit :: string
  freq :: string
  shape :: string
  majoraxis :: quantity
  minoraxis :: quantity
  positionangle :: string

definition disk :: "string \<Rightarrow> pyfloat \<Rightarrow> pyfloat \<Rightarrow> string \<Rightarrow> component" where
  "disk center_dir diameter_arcsec total_flux_jy fr =
     (let d = (diameter_arcsec, ''arcsec'') in
      \<lparr>dir = center_dir, flux = total_flux_jy, fluxunit = ''Jy'', freq = fr,
       shape = ''Disk'', majoraxis = d, minoraxis = d, positionangle = ''0deg''\<rparr>)"

text \<open>\<^verbatim>\<open>add_disk\<close> appends that entry to the list.\<close>

definition add_disk :: "component list \<Rightarrow> string \<Rightarrow> pyfloat \<Rightarrow> pyfloat \<Rightarrow> string \<Rightarrow> component list" where
  "add_disk cl center_dir diameter_arcsec total_flux_jy fr =
     cl @ [disk center_dir diameter_arcsec total_flux_jy fr]"

subsection \<open>One ring\<close>

text \<open>Line 59.\<close>

definition Rc :: "args \<Rightarrow> pyfloat" where
  "Rc a = fdiv (args.central_diameter a) (Fin 2)"

text \<open>
  Lines 61 and 62: the inner and the outer radius of ring j. The integer j becomes a
  float in the product.
\<close>

definition radii :: "args \<Rightarrow> nat \<Rightarrow> error + pyfloat \<times> pyfloat" where
  "radii a j =
     (case float_of_nat j of
        Inl e \<Rightarrow> Inl e
      | Inr fj \<Rightarrow>
          (let ri = fadd (Rc a) (fmul fj (fadd (args.ring_thickness a) (args.ring_spacing a)));
               ro = fadd ri (args.ring_thickness a)
           in Inr (ri, ro)))"

text \<open>Line 76, the local \<^verbatim>\<open>ring_flux\<close>: the ring's own flux, else the default.\<close>

definition resolved_ring_flux :: "args \<Rightarrow> pyfloat" where
  "resolved_ring_flux a = (case args.ring_flux a of Some f \<Rightarrow> f | None \<Rightarrow> args.flux a)"

text \<open>
  Lines 61 to 80: the locals of the loop body. The squares of lines 65 and 66 and the
  division of line 78 are the places where the body can raise.
\<close>

record ring =
  Rin :: pyfloat
  Rout :: pyfloat
  Aout :: pyfloat
  Ain :: pyfloat
  Aring :: pyfloat
  I :: pyfloat
  Fout :: pyfloat
  Finn :: pyfloat

definition ring :: "args \<Rightarrow> nat \<Rightarrow> error + ring" where
  "ring a j =
     (case radii a j of
        Inl e \<Rightarrow> Inl e
      | Inr (ri, ro) \<Rightarrow>
     (case pow2 ro of
        Inl e \<Rightarrow> Inl e
      | Inr ro2 \<Rightarrow>
     (case pow2 ri of
        Inl e \<Rightarrow> Inl e
      | Inr ri2 \<Rightarrow>
          (let ao = fmul math_pi ro2; ai = fmul math_pi ri2; ar = fsub ao ai in
           case args.ring_surface_brightness a of
             Some sb \<Rightarrow>
               Inr \<lparr>Rin = ri, Rout = ro, Aout = ao, Ain = ai, Aring = ar,
                    I = sb, Fout = fmul sb ao, Finn = fmul sb ai\<rparr>
           | None \<Rightarrow>
               (case truediv (resolved_ring_flux a) ar of
                  Inl e \<Rightarrow> Inl e
                | Inr i \<Rightarrow>
                    Inr \<lparr>Rin = ri, Rout = ro, Aout = ao, Ain = ai, Aring = ar,
                         I = i, Fout = fmul i ao, Finn = fmul i ai\<rparr>)))))"

subsection \<open>The loop over the rings\<close>

text \<open>
  \<^verbatim>\<open>for j in range(args.n_rings)\<close>: the component list is the state; an
  exception in the body ends the run. The centre direction is a string made by
  \<^verbatim>\<open>casatools.quanta\<close>, which is not part of the repository: it is a
  parameter here.
\<close>

fun rings_loop :: "args \<Rightarrow> string \<Rightarrow> nat list \<Rightarrow> component list \<Rightarrow> error + component list" where
  "rings_loop a center_dir [] cl = Inr cl"
| "rings_loop a center_dir (j # js) cl =
     (case ring a j of
        Inl e \<Rightarrow> Inl e
      | Inr r \<Rightarrow>
          rings_loop a center_dir js
            (add_disk (add_disk cl center_dir (fmul (Fin 2) (Rout r)) (Fout r) (args.freq a))
               center_dir (fmul (Fin 2) (Rin r)) (fneg (Finn r)) (args.freq a)))"

text \<open>Line 55, the local \<^verbatim>\<open>central_flux\<close>.\<close>

definition resolved_central_flux :: "args \<Rightarrow> pyfloat" where
  "resolved_central_flux a = (case args.central_flux a of Some f \<Rightarrow> f | None \<Rightarrow> args.flux a)"

text \<open>
  Lines 54 to 87. \<^verbatim>\<open>cl.done()\<close> of line 38 empties the list, and
  \<^verbatim>\<open>range(n)\<close> is empty for a negative \<^verbatim>\<open>n\<close>.
\<close>

definition main_components :: "args \<Rightarrow> string \<Rightarrow> error + component list" where
  "main_components a center_dir =
     rings_loop a center_dir [0..<nat (args.n_rings a)]
       (add_disk [] center_dir (args.central_diameter a) (resolved_central_flux a) (args.freq a))"

subsection \<open>The output name\<close>

text \<open>
  \<^verbatim>\<open>str.replace(old, new)\<close> for an \<^verbatim>\<open>old\<close> of one
  character, which is how line 90 calls it four times.
\<close>

definition replace :: "string \<Rightarrow> char \<Rightarrow> string \<Rightarrow> string" where
  "replace s old new = concat (map (\<lambda>c. if c = old then new else [c]) s)"

definition tag :: "args \<Rightarrow> string" where
  "tag a =
     replace (replace (replace (replace (args.dec_center a) (CHR ''-'') ''m'')
       (CHR ''+'') ''p'') (CHR ''d'') '''') (CHR ''.'') ''''"

definition imagename :: "args \<Rightarrow> string" where
  "imagename a = args.output_base a @ ''_dec'' @ tag a"

section \<open>Properties\<close>

subsection \<open>The tag\<close>

lemma set_replace:
  "set (replace s old new) = (set s - {old}) \<union> (if old \<in> set s then set new else {})"
  by (induction s) (auto simp: replace_def)

lemma replace_as_filter: "replace s old '''' = filter (\<lambda>c. c \<noteq> old) s"
  by (induction s) (auto simp: replace_def)

lemma replace_as_map: "replace s old [n] = map (\<lambda>c. if c = old then n else c) s"
  by (induction s) (auto simp: replace_def)

text \<open>
  C8. The tag has no minus sign, no d and no dot, whatever the declination string is: it
  is the declination with every minus sign turned into m, every plus sign into p, and
  every d and dot deleted. For the declination -23d00m00.00 the tag is m2300m0000, which
  begins with m23.
\<close>

theorem tag_filesystem_safe:
  "CHR ''-'' \<notin> set (tag a) \<and> CHR ''d'' \<notin> set (tag a) \<and> CHR ''.'' \<notin> set (tag a)
   \<and> tag a = filter (\<lambda>c. c \<noteq> CHR ''d'' \<and> c \<noteq> CHR ''.'')
         (map (\<lambda>c. if c = CHR ''-'' then CHR ''m'' else if c = CHR ''+'' then CHR ''p'' else c)
            (args.dec_center a))
   \<and> tag (a\<lparr>dec_center := ''-23d00m00.00''\<rparr>) = ''m2300m0000''
   \<and> take 3 (tag (a\<lparr>dec_center := ''-23d00m00.00''\<rparr>)) = ''m23''"
proof -
  have 1: "CHR ''-'' \<notin> set (tag a)" by (auto simp: tag_def set_replace split: if_splits)
  have 2: "CHR ''d'' \<notin> set (tag a)" by (auto simp: tag_def set_replace split: if_splits)
  have 3: "CHR ''.'' \<notin> set (tag a)" by (auto simp: tag_def set_replace split: if_splits)
  have f: "(\<lambda>x. if (if x = CHR ''-'' then CHR ''m'' else x) = CHR ''+''
              then CHR ''p'' else if x = CHR ''-'' then CHR ''m'' else x)
         = (\<lambda>c. if c = CHR ''-'' then CHR ''m'' else if c = CHR ''+'' then CHR ''p'' else c)"
    by (rule ext) simp
  have 4: "tag a = filter (\<lambda>c. c \<noteq> CHR ''d'' \<and> c \<noteq> CHR ''.'')
         (map (\<lambda>c. if c = CHR ''-'' then CHR ''m'' else if c = CHR ''+'' then CHR ''p'' else c)
            (args.dec_center a))"
    by (simp add: tag_def replace_as_filter replace_as_map o_def f)
  have 5: "tag (a\<lparr>dec_center := ''-23d00m00.00''\<rparr>) = ''m2300m0000''"
    by (simp add: tag_def replace_def)
  from 1 2 3 4 5 show ?thesis by simp
qed

subsection \<open>Rounding\<close>

lemma two_powi_less_iff: "(2::real) powi m < 2 powi n \<longleftrightarrow> m < n"
proof
  assume l: "(2::real) powi m < 2 powi n"
  show "m < n"
  proof (rule ccontr)
    assume "\<not> m < n"
    then have "n \<le> m" by simp
    then have "(2::real) powi n \<le> 2 powi m" by (rule power_int_increasing) simp
    with l show False by simp
  qed
next
  assume "m < n"
  then show "(2::real) powi m < 2 powi n" by (rule power_int_strict_increasing) simp
qed

lemma two_powi_le_iff: "(2::real) powi m \<le> 2 powi n \<longleftrightarrow> m \<le> n"
  using two_powi_less_iff[of n m] by (auto simp: not_less[symmetric])

lemma two_powi_pos [simp]: "0 < (2::real) powi n"
  by simp

lemma two_powi_Suc: "(2::real) powi (n + 1) = 2 * 2 powi n"
  by (simp add: power_int_add)

lemma ilog2_bounds:
  assumes "0 < a"
  shows "2 powi ilog2 a \<le> a" and "a < 2 powi (ilog2 a + 1)"
proof -
  show "2 powi ilog2 a \<le> a"
  proof (cases "1 \<le> a")
    case True
    then have n: "0 < \<lfloor>a\<rfloor>" by simp
    from bitlen_bounds[OF n] have "2 ^ nat (bitlen \<lfloor>a\<rfloor> - 1) \<le> \<lfloor>a\<rfloor>" by simp
    then have "(2::real) ^ nat (bitlen \<lfloor>a\<rfloor> - 1) \<le> of_int \<lfloor>a\<rfloor>"
      by (metis of_int_le_iff of_int_numeral of_int_power)
    also have "\<dots> \<le> a" by simp
    finally have "(2::real) ^ nat (bitlen \<lfloor>a\<rfloor> - 1) \<le> a" .
    moreover from n have "1 \<le> bitlen \<lfloor>a\<rfloor>" by (simp add: bitlen_alt_def)
    ultimately show ?thesis using True by (simp add: ilog2_def power_int_def)
  next
    case False
    define c where "c = \<lceil>1 / a\<rceil>"
    define k where "k = bitlen (c - 1)"
    from False assms have y: "1 < 1 / a" by simp
    then have c: "2 \<le> c" unfolding c_def by linarith
    then have p: "0 < c - 1" by simp
    from bitlen_bounds[OF p] have b: "2 ^ nat (k - 1) \<le> c - 1" "c - 1 < 2 ^ nat k"
      by (simp_all add: k_def)
    from p have k1: "1 \<le> k" by (simp add: k_def bitlen_alt_def)
    from b(2) have "c \<le> 2 ^ nat k" by simp
    then have "of_int c \<le> (2::real) ^ nat k"
      by (metis of_int_le_iff of_int_numeral of_int_power)
    moreover have "1 / a \<le> of_int c" unfolding c_def by simp
    ultimately have "1 / a \<le> 2 ^ nat k" by linarith
    then have "1 / 2 ^ nat k \<le> a" using assms by (simp add: field_simps)
    moreover have "2 powi (- k) = 1 / (2::real) ^ nat k"
      using k1 by (simp add: power_int_def field_simps)
    ultimately show ?thesis using False by (simp add: ilog2_def c_def k_def)
  qed
  show "a < 2 powi (ilog2 a + 1)"
  proof (cases "1 \<le> a")
    case True
    then have n: "0 < \<lfloor>a\<rfloor>" by simp
    from bitlen_bounds[OF n] have "\<lfloor>a\<rfloor> + 1 \<le> 2 ^ nat (bitlen \<lfloor>a\<rfloor>)" by simp
    then have "of_int (\<lfloor>a\<rfloor> + 1) \<le> (2::real) ^ nat (bitlen \<lfloor>a\<rfloor>)"
      by (metis of_int_le_iff of_int_numeral of_int_power)
    moreover have "a < of_int (\<lfloor>a\<rfloor> + 1)" by linarith
    ultimately have "a < (2::real) ^ nat (bitlen \<lfloor>a\<rfloor>)" by linarith
    moreover have "0 \<le> bitlen \<lfloor>a\<rfloor>" by (rule bitlen_nonneg)
    ultimately show ?thesis using True by (simp add: ilog2_def power_int_def)
  next
    case False
    define c where "c = \<lceil>1 / a\<rceil>"
    define k where "k = bitlen (c - 1)"
    from False assms have y: "1 < 1 / a" by simp
    then have c: "2 \<le> c" unfolding c_def by linarith
    then have p: "0 < c - 1" by simp
    from bitlen_bounds[OF p] have b: "2 ^ nat (k - 1) \<le> c - 1" "c - 1 < 2 ^ nat k"
      by (simp_all add: k_def)
    from p have k1: "1 \<le> k" by (simp add: k_def bitlen_alt_def)
    from b(1) have "(2::real) ^ nat (k - 1) \<le> of_int (c - 1)"
      by (metis of_int_le_iff of_int_numeral of_int_power)
    moreover have "of_int (c - 1) < 1 / a" unfolding c_def by linarith
    ultimately have "2 ^ nat (k - 1) < 1 / a" by linarith
    then have "a < 1 / 2 ^ nat (k - 1)" using assms by (simp add: field_simps)
    moreover have "2 powi (- k + 1) = 1 / (2::real) ^ nat (k - 1)"
    proof -
      have "- k + 1 = - (k - 1)" by simp
      then have "(2::real) powi (- k + 1) = 2 powi (- (k - 1))" by simp
      also have "\<dots> = 1 / 2 powi (k - 1)" by (rule power_int_minus_divide)
      also have "\<dots> = 1 / 2 ^ nat (k - 1)" using k1 by (simp add: power_int_def)
      finally show ?thesis .
    qed
    ultimately show ?thesis using False by (simp add: ilog2_def c_def k_def)
  qed
qed

lemma ilog2_eqI:
  assumes "2 powi e \<le> a" and "a < 2 powi (e + 1)"
  shows "ilog2 a = e"
proof -
  have "0 < (2::real) powi e" by simp
  with assms(1) have pos: "0 < a" by linarith
  note b = ilog2_bounds[OF pos]
  have "(2::real) powi e < 2 powi (ilog2 a + 1)" using assms(1) b(2) by simp
  then have 1: "e < ilog2 a + 1" by (simp only: two_powi_less_iff)
  have "(2::real) powi ilog2 a < 2 powi (e + 1)" using assms(2) b(1) by simp
  then have 2: "ilog2 a < e + 1" by (simp only: two_powi_less_iff)
  from 1 2 show ?thesis by simp
qed


lemma rne_cases:
  "rne z = \<lfloor>z\<rfloor> \<or> rne z = \<lfloor>z\<rfloor> + 1"
  by (simp add: rne_def Let_def)

lemma rne_error: "\<bar>of_int (rne z) - z\<bar> \<le> 1 / 2"
proof -
  have "of_int \<lfloor>z\<rfloor> \<le> z" "z < of_int \<lfloor>z\<rfloor> + 1" by linarith+
  then show ?thesis unfolding rne_def Let_def by (auto simp: abs_le_iff)
qed

lemma rne_of_int [simp]: "rne (of_int k) = k"
  by (simp add: rne_def)

lemma rne_evalI:
  assumes "of_int m - 1 / 2 < z" and "z < of_int m + 1 / 2"
  shows "rne z = m"
proof -
  have "\<bar>of_int (rne z) - z\<bar> \<le> 1 / 2" by (rule rne_error)
  with assms have "\<bar>of_int (rne z) - (of_int m :: real)\<bar> < 1" by linarith
  then have "\<bar>of_int (rne z - m) :: real\<bar> < 1" by simp
  then have "\<bar>rne z - m\<bar> < 1" by (metis of_int_abs of_int_less_1_iff)
  then show ?thesis by simp
qed

lemma rne_tieI:
  assumes "z = of_int f + 1 / 2" and "m = (if even f then f else f + 1)"
  shows "rne z = m"
proof -
  from assms(1) have "\<lfloor>z\<rfloor> = f" by linarith
  with assms show ?thesis by (simp add: rne_def)
qed

lemma rne_mono: "x \<le> y \<Longrightarrow> rne x \<le> rne y"
proof -
  assume xy: "x \<le> y"
  then have fl: "\<lfloor>x\<rfloor> \<le> \<lfloor>y\<rfloor>" by (rule floor_mono)
  show ?thesis
  proof (cases "\<lfloor>x\<rfloor> = \<lfloor>y\<rfloor>")
    case True
    with xy show ?thesis by (auto simp: rne_def Let_def)
  next
    case False
    with fl have "\<lfloor>x\<rfloor> + 1 \<le> \<lfloor>y\<rfloor>" by simp
    moreover have "rne x \<le> \<lfloor>x\<rfloor> + 1" using rne_cases[of x] by auto
    moreover have "\<lfloor>y\<rfloor> \<le> rne y" using rne_cases[of y] by auto
    ultimately show ?thesis by simp
  qed
qed

lemma rne_minus: "rne (- z) = - rne z"
proof (cases "z \<in> \<int>")
  case True
  then obtain k where "z = of_int k" by (auto elim: Ints_cases)
  then have "- z = of_int (- k)" by simp
  then show ?thesis using \<open>z = of_int k\<close> by (simp only: rne_of_int)
next
  case False
  then have ne: "z \<noteq> of_int \<lfloor>z\<rfloor>" by (metis Ints_of_int)
  then have fl: "\<lfloor>- z\<rfloor> = - \<lfloor>z\<rfloor> - 1"
    by (simp add: floor_minus ceiling_altdef)
  define f where "f = \<lfloor>z\<rfloor>"
  define d where "d = z - of_int f"
  have d: "0 < d" "d < 1"
  proof -
    have "of_int f \<noteq> z" using False by (metis Ints_of_int)
    moreover have "of_int f \<le> z" unfolding f_def by simp
    ultimately show "0 < d" unfolding d_def by simp
    show "d < 1" unfolding d_def f_def by linarith
  qed
  have z: "z = of_int f + d" by (simp add: d_def)
  have "- z - of_int (- f - 1) = 1 - d" by (simp add: z)
  then show ?thesis
    using d fl unfolding rne_def Let_def f_def[symmetric] d_def[symmetric]
    by (auto simp: f_def[symmetric])
qed

lemma quantum_pos [simp]: "0 < quantum x"
  by (simp add: quantum_def)

lemma rnd_evalI:
  assumes "2 powi e \<le> \<bar>x\<bar>" and "\<bar>x\<bar> < 2 powi (e + 1)"
    and "q = 2 powi (max e (- 1022) - 52)"
    and "rne (x / q) = m"
    and "y = of_int m * q" and "\<bar>y\<bar> < 2 ^ 1024"
  shows "rnd x = Fin y"
proof -
  have "0 < (2::real) powi e" by simp
  with assms(1) have "0 < \<bar>x\<bar>" by linarith
  then have nz: "x \<noteq> 0" by simp
  have "ilog2 \<bar>x\<bar> = e" using assms(1,2) by (rule ilog2_eqI)
  then have "quantum x = q" by (simp add: quantum_def assms(3))
  then have "rnd_val x = y" using nz by (simp add: rnd_val_def assms(4,5))
  with assms(6) show ?thesis by (auto simp: rnd_def Let_def abs_less_iff)
qed

lemma rnd_zero [simp]: "rnd 0 = Fin 0"
  by (simp add: rnd_def rnd_val_def)


lemma quantum_minus [simp]: "quantum (- x) = quantum x"
  by (simp add: quantum_def)

lemma rnd_val_minus: "rnd_val (- x) = - rnd_val x"
  by (simp add: rnd_val_def rne_minus)

lemma rnd_val_zero [simp]: "rnd_val 0 = 0"
  by (simp add: rnd_val_def)

lemma rne_zero [simp]: "rne 0 = 0"
  using rne_of_int[of 0] by simp

lemma rne_nonneg: "0 \<le> z \<Longrightarrow> 0 \<le> rne z"
  using rne_mono[of 0 z] by simp

lemma quantum_nonneg [simp]: "0 \<le> quantum x"
  using quantum_pos[of x] by linarith

lemma quantum_nonzero [simp]: "quantum x \<noteq> 0"
  using quantum_pos[of x] by linarith

lemma rnd_val_nonneg:
  assumes "0 \<le> x"
  shows "0 \<le> rnd_val x"
proof -
  from assms have "0 \<le> x / quantum x" by simp
  then have "0 \<le> rne (x / quantum x)" by (rule rne_nonneg)
  then show ?thesis by (simp add: rnd_val_def)
qed

lemma quantum_expo: "quantum x = 2 powi (expo x - 52)"
  by (simp add: quantum_def expo_def)

lemma expo_ge: "- 1022 \<le> expo x"
  by (simp add: expo_def)

lemma below_next_binade:
  assumes "x \<noteq> 0"
  shows "\<bar>x\<bar> < 2 powi (expo x + 1)"
proof -
  from assms have "0 < \<bar>x\<bar>" by simp
  then have "\<bar>x\<bar> < 2 powi (ilog2 \<bar>x\<bar> + 1)" by (rule ilog2_bounds)
  also have "\<dots> \<le> 2 powi (expo x + 1)"
    by (simp add: two_powi_le_iff expo_def)
  finally show ?thesis .
qed

lemma above_binade:
  assumes "2 powi (- 1022) \<le> \<bar>x\<bar>"
  shows "2 powi expo x \<le> \<bar>x\<bar>" and "expo x = ilog2 \<bar>x\<bar>"
proof -
  have "0 < (2::real) powi (- 1022)" by simp
  with assms have pos: "0 < \<bar>x\<bar>" by linarith
  note b = ilog2_bounds[OF pos]
  from assms b(2) have "(2::real) powi (- 1022) < 2 powi (ilog2 \<bar>x\<bar> + 1)" by linarith
  then have "- 1022 < ilog2 \<bar>x\<bar> + 1" by (simp only: two_powi_less_iff)
  then show e: "expo x = ilog2 \<bar>x\<bar>" by (simp add: expo_def)
  show "2 powi expo x \<le> \<bar>x\<bar>" using b(1) by (simp add: e)
qed

lemma two_powi_split: "(2::real) powi (e + 1) = 2 ^ 53 * 2 powi (e - 52)"
  using power_int_add[of "2::real" 53 "e - 52"] by (simp add: add.commute)

lemma two_powi_split2: "(2::real) powi e = 2 ^ 52 * 2 powi (e - 52)"
  using power_int_add[of "2::real" 52 "e - 52"] by simp

text \<open>The rounding error: half a quantum, and relative \<open>2 powi - 53\<close> in the normal range.\<close>

lemma rnd_val_abs_error: "\<bar>rnd_val x - x\<bar> \<le> quantum x / 2"
proof (cases "x = 0")
  case True
  then show ?thesis by simp
next
  case False
  have "\<bar>of_int (rne (x / quantum x)) - x / quantum x\<bar> \<le> 1 / 2" by (rule rne_error)
  then have "\<bar>of_int (rne (x / quantum x)) - x / quantum x\<bar> * quantum x \<le> 1 / 2 * quantum x"
    by (rule mult_right_mono) simp
  also have "\<bar>of_int (rne (x / quantum x)) - x / quantum x\<bar> * quantum x
      = \<bar>(of_int (rne (x / quantum x)) - x / quantum x) * quantum x\<bar>"
    by (simp add: abs_mult)
  also have "(of_int (rne (x / quantum x)) - x / quantum x) * quantum x = rnd_val x - x"
    using False by (simp add: rnd_val_def left_diff_distrib)
  finally show ?thesis by simp
qed

lemma rnd_val_rel_error:
  assumes "2 powi (- 1022) \<le> \<bar>x\<bar>"
  shows "\<bar>rnd_val x - x\<bar> \<le> \<bar>x\<bar> / 2 ^ 53"
proof -
  have "quantum x / 2 = 2 powi expo x / 2 ^ 53"
    by (simp add: quantum_expo two_powi_split2[of "expo x"])
  also have "\<dots> \<le> \<bar>x\<bar> / 2 ^ 53"
    using above_binade(1)[OF assms] by (simp add: divide_right_mono)
  finally show ?thesis using rnd_val_abs_error[of x] by linarith
qed

text \<open>Rounding is monotone.\<close>

lemma expo_mono:
  assumes "0 < x" and "x \<le> y"
  shows "expo x \<le> expo y"
proof -
  from assms have y: "0 < y" by simp
  have "2 powi ilog2 x \<le> x" using assms(1) by (rule ilog2_bounds)
  also have "x \<le> y" by fact
  also have "y < 2 powi (ilog2 y + 1)" using y by (rule ilog2_bounds)
  finally have "ilog2 x < ilog2 y + 1" by (simp only: two_powi_less_iff)
  then show ?thesis using assms y by (simp add: expo_def)
qed

lemma rnd_val_le_next:
  assumes "0 < x"
  shows "rnd_val x \<le> 2 powi (expo x + 1)"
proof -
  from assms have nz: "x \<noteq> 0" by simp
  from below_next_binade[OF nz] assms have "x < 2 ^ 53 * quantum x"
    by (simp add: two_powi_split quantum_expo)
  then have "x / quantum x \<le> of_int (2 ^ 53)" by (simp add: field_simps)
  then have "rne (x / quantum x) \<le> rne (of_int (2 ^ 53))" by (rule rne_mono)
  then have "rne (x / quantum x) \<le> 2 ^ 53" by (simp only: rne_of_int)
  then have "(of_int (rne (x / quantum x)) :: real) \<le> of_int (2 ^ 53)" by (simp only: of_int_le_iff)
  then have "of_int (rne (x / quantum x)) * quantum x \<le> of_int (2 ^ 53) * quantum x"
    by (rule mult_right_mono) simp
  then show ?thesis using nz by (simp add: rnd_val_def two_powi_split quantum_expo)
qed

lemma rnd_val_ge_binade:
  assumes "2 powi expo x \<le> x"
  shows "2 powi expo x \<le> rnd_val x"
proof -
  have "0 < (2::real) powi expo x" by simp
  with assms have pos: "0 < x" by linarith
  then have nz: "x \<noteq> 0" by simp
  from assms have "2 ^ 52 * quantum x \<le> x"
    by (simp add: two_powi_split2[of "expo x"] quantum_expo)
  then have "of_int (2 ^ 52) \<le> x / quantum x" by (simp add: field_simps)
  then have "rne (of_int (2 ^ 52)) \<le> rne (x / quantum x)" by (rule rne_mono)
  then have "2 ^ 52 \<le> rne (x / quantum x)" by (simp only: rne_of_int)
  then have "(of_int (2 ^ 52) :: real) \<le> of_int (rne (x / quantum x))" by (simp only: of_int_le_iff)
  then have "of_int (2 ^ 52) * quantum x \<le> of_int (rne (x / quantum x)) * quantum x"
    by (rule mult_right_mono) simp
  then show ?thesis using nz by (simp add: rnd_val_def two_powi_split2[of "expo x"] quantum_expo)
qed

lemma rnd_val_mono_pos:
  assumes "0 < x" and "x \<le> y"
  shows "rnd_val x \<le> rnd_val y"
proof -
  from assms have y: "0 < y" by simp
  from expo_mono[OF assms] have le: "expo x \<le> expo y" .
  show ?thesis
  proof (cases "expo x = expo y")
    case True
    then have q: "quantum x = quantum y" by (simp add: quantum_expo)
    from assms(2) have "x / quantum y \<le> y / quantum y" by (simp add: divide_right_mono)
    then have "rne (x / quantum y) \<le> rne (y / quantum y)" by (rule rne_mono)
    then have "(of_int (rne (x / quantum y)) :: real) \<le> of_int (rne (y / quantum y))"
      by (simp only: of_int_le_iff)
    then have "of_int (rne (x / quantum y)) * quantum y \<le> of_int (rne (y / quantum y)) * quantum y"
      by (rule mult_right_mono) simp
    then show ?thesis using assms(1) y by (simp add: rnd_val_def q)
  next
    case False
    with le have lt: "expo x + 1 \<le> expo y" by simp
    then have "- 1022 < expo y" using expo_ge[of x] by linarith
    then have ey: "expo y = ilog2 \<bar>y\<bar>" by (simp add: expo_def max_def split: if_splits)
    have "2 powi expo y \<le> y" using ilog2_bounds(1)[of "\<bar>y\<bar>"] y by (simp add: ey)
    then have "2 powi expo y \<le> rnd_val y" by (rule rnd_val_ge_binade)
    moreover have "rnd_val x \<le> 2 powi (expo x + 1)" using assms(1) by (rule rnd_val_le_next)
    moreover have "(2::real) powi (expo x + 1) \<le> 2 powi expo y"
      using lt by (simp only: two_powi_le_iff)
    ultimately show ?thesis by linarith
  qed
qed

lemma rnd_val_mono:
  assumes "x \<le> y"
  shows "rnd_val x \<le> rnd_val y"
proof -
  consider "0 < x" | "x \<le> 0" "0 \<le> y" | "y < 0" by linarith
  then show ?thesis
  proof cases
    case 1
    then show ?thesis using assms by (rule rnd_val_mono_pos)
  next
    case 2
    have "rnd_val x \<le> 0" using rnd_val_nonneg[of "- x"] 2(1) by (simp add: rnd_val_minus)
    moreover have "0 \<le> rnd_val y" using 2(2) by (rule rnd_val_nonneg)
    ultimately show ?thesis by simp
  next
    case 3
    then have "0 < - y" "- y \<le> - x" using assms by simp_all
    then have "rnd_val (- y) \<le> rnd_val (- x)" by (rule rnd_val_mono_pos)
    then show ?thesis by (simp add: rnd_val_minus)
  qed
qed


lemma ilog2_mono_bound:
  assumes "0 < y" and "y < 2 powi n"
  shows "ilog2 y < n"
proof -
  have "2 powi ilog2 y \<le> y" using assms(1) by (rule ilog2_bounds)
  with assms(2) have "(2::real) powi ilog2 y < 2 powi n" by linarith
  then show ?thesis by (simp only: two_powi_less_iff)
qed

lemma ilog2_ge_bound:
  assumes "2 powi n \<le> y"
  shows "n \<le> ilog2 y"
proof -
  have "0 < (2::real) powi n" by simp
  with assms have "0 < y" by linarith
  then have "y < 2 powi (ilog2 y + 1)" by (rule ilog2_bounds)
  with assms have "(2::real) powi n < 2 powi (ilog2 y + 1)" by linarith
  then have "n < ilog2 y + 1" by (simp only: two_powi_less_iff)
  then show ?thesis by simp
qed

lemma rnd_val_idem_pos:
  assumes "0 < x"
  shows "rnd_val (rnd_val x) = rnd_val x"
proof -
  define E where "E = expo x"
  define q where "q = quantum x"
  define m where "m = rne (x / q)"
  define y where "y = rnd_val x"
  have q: "q = 2 powi (E - 52)" by (simp add: q_def E_def quantum_expo)
  have qpos: "0 < q" by (simp add: q_def)
  have y: "y = of_int m * q" using assms by (simp add: y_def rnd_val_def m_def q_def)
  have E: "- 1022 \<le> E" by (simp add: E_def expo_ge)
  have ynn: "0 \<le> y" unfolding y_def using assms by (intro rnd_val_nonneg) simp
  have ub: "y \<le> 2 powi (E + 1)" unfolding y_def E_def using assms by (rule rnd_val_le_next)
  show ?thesis
  proof (cases "y = 0")
    case True
    then show ?thesis by (simp add: y_def[symmetric])
  next
    case False
    with ynn have ypos: "0 < y" by simp
    show ?thesis
    proof (cases "y = 2 powi (E + 1)")
      case True
      have "2 powi (E + 1) \<le> \<bar>y\<bar>" using True by simp
      moreover have "\<bar>y\<bar> < 2 powi (E + 1 + 1)"
        using True by (simp add: two_powi_less_iff)
      ultimately have "ilog2 \<bar>y\<bar> = E + 1" by (rule ilog2_eqI)
      then have "expo y = E + 1" using E by (simp add: expo_def)
      then have qy: "quantum y = 2 powi (E + 1 - 52)" by (simp add: quantum_expo)
      define Q where "Q = quantum y"
      have Qpos: "0 < Q" by (simp add: Q_def)
      have "y = 2 powi (E + 1)" by (rule True)
      also have "\<dots> = 2 ^ 52 * 2 powi (E + 1 - 52)" by (rule two_powi_split2)
      also have "\<dots> = 2 ^ 52 * Q" by (simp only: Q_def qy)
      finally have yQ: "y = 2 ^ 52 * Q" .
      then have "y / Q = 2 ^ 52" using Qpos by simp
      then have yq: "y / Q = of_int (2 ^ 52)" by simp
      have "rne (y / Q) = 2 ^ 52" unfolding yq by (rule rne_of_int)
      then have "rnd_val y = 2 ^ 52 * Q" using False by (simp add: rnd_val_def Q_def)
      with yQ have "rnd_val y = y" by simp
      then show ?thesis by (simp add: y_def[symmetric])
    next
      case neq: False
      with ub have lt: "y < 2 powi (E + 1)" by simp
      have "ilog2 \<bar>y\<bar> < E + 1" using ypos lt by (intro ilog2_mono_bound) simp_all
      then have le: "expo y \<le> E" using E by (simp add: expo_def)
      have ge: "E \<le> expo y"
      proof (cases "E = - 1022")
        case True
        then show ?thesis by (simp add: expo_ge)
      next
        case False
        with E have "- 1022 < E" by simp
        then have Ex: "E = ilog2 \<bar>x\<bar>"
          by (simp add: E_def expo_def max_def split: if_splits)
        have "2 powi expo x \<le> x"
          using ilog2_bounds(1)[of "\<bar>x\<bar>"] assms Ex by (simp add: E_def)
        then have "2 powi expo x \<le> rnd_val x" by (rule rnd_val_ge_binade)
        then have "2 powi E \<le> \<bar>y\<bar>" using ypos by (simp add: E_def y_def)
        then have "E \<le> ilog2 \<bar>y\<bar>" by (rule ilog2_ge_bound)
        then show ?thesis by (simp add: expo_def)
      qed
      from le ge have "expo y = E" by simp
      then have qy: "quantum y = q" by (simp add: quantum_expo q)
      have "y / q = of_int m" using qpos by (simp add: y)
      then have "rne (y / quantum y) = m" by (simp add: qy)
      then have "rnd_val y = of_int m * q" using False by (simp add: rnd_val_def qy)
      then show ?thesis by (simp add: y y_def[symmetric])
    qed
  qed
qed

lemma rnd_val_idem [simp]: "rnd_val (rnd_val x) = rnd_val x"
proof -
  consider "0 < x" | "x = 0" | "x < 0" by linarith
  then show ?thesis
  proof cases
    case 1
    then show ?thesis by (rule rnd_val_idem_pos)
  next
    case 2
    then show ?thesis by simp
  next
    case 3
    then have "0 < - x" by simp
    then have "rnd_val (rnd_val (- x)) = rnd_val (- x)" by (rule rnd_val_idem_pos)
    then show ?thesis by (simp add: rnd_val_minus)
  qed
qed


lemma rnd_PInf_iff: "rnd x = PInf \<longleftrightarrow> 2 ^ 1024 \<le> rnd_val x"
  by (auto simp: rnd_def Let_def)

lemma rnd_NInf_iff: "rnd x = NInf \<longleftrightarrow> rnd_val x \<le> - (2 ^ 1024)"
proof -
  have "\<not> (2 ^ 1024 \<le> rnd_val x \<and> rnd_val x \<le> - (2 ^ 1024))"
  proof
    assume "2 ^ 1024 \<le> rnd_val x \<and> rnd_val x \<le> - (2 ^ 1024)"
    then have "(2::real) ^ 1024 \<le> - (2 ^ 1024)" by linarith
    then show False by simp
  qed
  then show ?thesis by (auto simp: rnd_def Let_def)
qed

lemma rnd_not_NaN [simp]: "rnd x \<noteq> NaN"
  by (simp add: rnd_def Let_def)


lemma representable_zero [simp]: "representable 0"
  by (simp add: representable_def)

subsection \<open>Values at concrete inputs\<close>

text \<open>
  The roundings that the concrete runs below need, each checked from the definition of
  \<open>rnd\<close> with its binary exponent, its quantum and its integer significand.
\<close>

lemma rnd_overflowI:
  assumes "2 powi e \<le> \<bar>x\<bar>" and "\<bar>x\<bar> < 2 powi (e + 1)"
    and "q = 2 powi (max e (- 1022) - 52)"
    and "rne (x / q) = m"
    and "2 ^ 1024 \<le> of_int m * q"
  shows "rnd x = PInf"
proof -
  have "0 < (2::real) powi e" by simp
  with assms(1) have "0 < \<bar>x\<bar>" by linarith
  then have nz: "x \<noteq> 0" by simp
  have "ilog2 \<bar>x\<bar> = e" using assms(1,2) by (rule ilog2_eqI)
  then have "quantum x = q" by (simp add: quantum_def assms(3))
  then have "rnd_val x = of_int m * q" using nz by (simp add: rnd_val_def assms(4))
  with assms(5) show ?thesis by (simp add: rnd_PInf_iff)
qed

lemma rnd_fact_0: "rnd (9 / 2000) = Fin (5188146770730811 / 1152921504606846976)"
  by (rule rnd_evalI[where e = "- 8" and q = "1 / 2 ^ 60" and m = "5188146770730811"])
     (simp_all add: rne_evalI)

lemma rnd_fact_1: "rnd (9 / 1000) = Fin (5188146770730811 / 576460752303423488)"
  by (rule rnd_evalI[where e = "- 7" and q = "1 / 2 ^ 59" and m = "5188146770730811"])
     (simp_all add: rne_evalI)

lemma rnd_fact_2: "rnd (27 / 100000) = Fin (4980620899901579 / 18446744073709551616)"
  by (rule rnd_evalI[where e = "- 12" and q = "1 / 2 ^ 64" and m = "4980620899901579"])
     (simp_all add: rne_evalI)

lemma rnd_fact_3: "rnd (1 / 200) = Fin (5764607523034235 / 1152921504606846976)"
  by (rule rnd_evalI[where e = "- 8" and q = "1 / 2 ^ 60" and m = "5764607523034235"])
     (simp_all add: rne_evalI)

lemma rnd_fact_4: "rnd (26000000000000000000000000000000000000000000000000000000000000000000000000000000000000000000000000000000000000000000000000000000000000000000000000000000000) = Fin (25999999999999998876644197589149813482482645581104389076238714872913071075214071862033967206499535890505949953083909759198974259222505479814310310801571840)"
  by (rule rnd_evalI[where e = "512" and q = "2 ^ 460" and m = "8733238939837215"])
     (simp_all add: rne_evalI)

lemma rnd_fact_5: "rnd (1 / 100000000000000000) = Fin (6490371073168535 / 649037107316853453566312041152512)"
  by (rule rnd_evalI[where e = "- 57" and q = "1 / 2 ^ 109" and m = "6490371073168535"])
     (simp_all add: rne_evalI)

lemma rnd_fact_6: "rnd (1 / 100000) = Fin (5902958103587057 / 590295810358705651712)"
  by (rule rnd_evalI[where e = "- 17" and q = "1 / 2 ^ 69" and m = "5902958103587057"])
     (simp_all add: rne_evalI)

lemma rnd_fact_7: "rnd (5188146770730811 / 2305843009213693952) = Fin (5188146770730811 / 2305843009213693952)"
  by (rule rnd_evalI[where e = "- 9" and q = "1 / 2 ^ 61" and m = "5188146770730811"])
     (simp_all add: rne_evalI)

lemma rnd_fact_8: "rnd (15564440312192433 / 1152921504606846976) = Fin (972777519512027 / 72057594037927936)"
  by (rule rnd_evalI[where e = "- 7" and q = "1 / 2 ^ 59" and m = "7782220156096216"])
     (simp_all add: rne_tieI[where f = "7782220156096216"])

lemma rnd_fact_9: "rnd (15564440312192433 / 2305843009213693952) = Fin (972777519512027 / 144115188075855872)"
  by (rule rnd_evalI[where e = "- 8" and q = "1 / 2 ^ 60" and m = "7782220156096216"])
     (simp_all add: rne_tieI[where f = "7782220156096216"])

lemma rnd_fact_10: "rnd (946296102467972070704197648729 / 20769187434139310514121985316880384) = Fin (3361919107433565 / 73786976294838206464)"
  by (rule rnd_evalI[where e = "- 15" and q = "1 / 2 ^ 67" and m = "6723838214867130"])
     (simp_all add: rne_evalI)

lemma rnd_fact_11: "rnd (26916866914644542358795024717721 / 5316911983139663491615228241121378304) = Fin (2988372539940947 / 590295810358705651712)"
  by (rule rnd_evalI[where e = "- 18" and q = "1 / 2 ^ 70" and m = "5976745079881894"])
     (simp_all add: rne_evalI)

lemma rnd_fact_12: "rnd (2972876883634035291795161323575 / 20769187434139310514121985316880384) = Fin (5280890184938221 / 36893488147419103232)"
  by (rule rnd_evalI[where e = "- 13" and q = "1 / 2 ^ 65" and m = "5280890184938221"])
     (simp_all add: rne_evalI)

lemma rnd_fact_13: "rnd (2642557229896920554133383066585 / 166153499473114484112975882535043072) = Fin (4694124608833975 / 295147905179352825856)"
  by (rule rnd_evalI[where e = "- 16" and q = "1 / 2 ^ 68" and m = "4694124608833975"])
     (simp_all add: rne_evalI)

lemma rnd_fact_14: "rnd (37552996870671793 / 295147905179352825856) = Fin (2347062304416987 / 18446744073709551616)"
  by (rule rnd_evalI[where e = "- 13" and q = "1 / 2 ^ 65" and m = "4694124608833974"])
     (simp_all add: rne_evalI)

lemma rnd_fact_15: "rnd (4980620899901579 / 2347062304416987) = Fin (1194616904004721 / 562949953421312)"
  by (rule rnd_evalI[where e = "1" and q = "1 / 2 ^ 51" and m = "4778467616018884"])
     (simp_all add: rne_evalI)

lemma rnd_fact_16: "rnd (6308640683119816084850877341341 / 20769187434139310514121985316880384) = Fin (5603198512389277 / 18446744073709551616)"
  by (rule rnd_evalI[where e = "- 12" and q = "1 / 2 ^ 64" and m = "5603198512389277"])
     (simp_all add: rne_evalI)

lemma rnd_fact_17: "rnd (5607680607217615226791705195975 / 166153499473114484112975882535043072) = Fin (1245155224975395 / 36893488147419103232)"
  by (rule rnd_evalI[where e = "- 15" and q = "1 / 2 ^ 67" and m = "4980620899901580"])
     (simp_all add: rne_evalI)

lemma rnd_fact_18: "rnd (9961241799803159 / 36893488147419103232) = Fin (1245155224975395 / 4611686018427387904)"
  by (rule rnd_evalI[where e = "- 12" and q = "1 / 2 ^ 64" and m = "4980620899901580"])
     (simp_all add: rne_tieI[where f = "4980620899901579"])

lemma rnd_fact_19: "rnd (972777519512027 / 72057594037927936) = Fin (972777519512027 / 72057594037927936)"
  by (rule rnd_evalI[where e = "- 7" and q = "1 / 2 ^ 59" and m = "7782220156096216"])
     (simp_all add: rne_evalI)

lemma rnd_fact_20: "rnd (5188146770730811 / 1152921504606846976) = Fin (5188146770730811 / 1152921504606846976)"
  by (rule rnd_evalI[where e = "- 8" and q = "1 / 2 ^ 60" and m = "5188146770730811"])
     (simp_all add: rne_evalI)

lemma rnd_fact_21: "rnd (1) = Fin (1)"
  by (rule rnd_evalI[where e = "0" and q = "1 / 2 ^ 52" and m = "4503599627370496"])
     (simp_all add: rne_evalI)

lemma rnd_fact_22: "rnd (36317027395115675 / 2305843009213693952) = Fin (4539628424389459 / 288230376151711744)"
  by (rule rnd_evalI[where e = "- 6" and q = "1 / 2 ^ 58" and m = "4539628424389459"])
     (simp_all add: rne_evalI)

lemma rnd_fact_23: "rnd (23346660468288647 / 1152921504606846976) = Fin (2918332558536081 / 144115188075855872)"
  by (rule rnd_evalI[where e = "- 6" and q = "1 / 2 ^ 58" and m = "5836665117072162"])
     (simp_all add: rne_evalI)

lemma rnd_fact_24: "rnd (8516664922211748636337778838561 / 20769187434139310514121985316880384) = Fin (7564317991725521 / 18446744073709551616)"
  by (rule rnd_evalI[where e = "- 12" and q = "1 / 2 ^ 64" and m = "7564317991725521"])
     (simp_all add: rne_evalI)

lemma rnd_fact_25: "rnd (20608226231524722068916910312681 / 83076749736557242056487941267521536) = Fin (2287972725892287 / 9223372036854775808)"
  by (rule rnd_evalI[where e = "- 12" and q = "1 / 2 ^ 64" and m = "4575945451784574"])
     (simp_all add: rne_evalI)

lemma rnd_fact_26: "rnd (6688972988176579185469183227155 / 5192296858534827628530496329220096) = Fin (5941001458055499 / 4611686018427387904)"
  by (rule rnd_evalI[where e = "- 10" and q = "1 / 2 ^ 62" and m = "5941001458055499"])
     (simp_all add: rne_evalI)

lemma rnd_fact_27: "rnd (2023207879139829315667900080285 / 2596148429267413814265248164610048) = Fin (3593939153638511 / 4611686018427387904)"
  by (rule rnd_evalI[where e = "- 11" and q = "1 / 2 ^ 63" and m = "7187878307277022"])
     (simp_all add: rne_evalI)

lemma rnd_fact_28: "rnd (586765576104247 / 1152921504606846976) = Fin (586765576104247 / 1152921504606846976)"
  by (rule rnd_evalI[where e = "- 11" and q = "1 / 2 ^ 63" and m = "4694124608833976"])
     (simp_all add: rne_evalI)

lemma rnd_fact_29: "rnd (4980620899901579 / 9388249217667952) = Fin (2389233808009441 / 4503599627370496)"
  by (rule rnd_evalI[where e = "- 1" and q = "1 / 2 ^ 53" and m = "4778467616018882"])
     (simp_all add: rne_evalI)

lemma rnd_fact_30: "rnd (14194441537019581145875693966059 / 20769187434139310514121985316880384) = Fin (3151799163218967 / 4611686018427387904)"
  by (rule rnd_evalI[where e = "- 11" and q = "1 / 2 ^ 63" and m = "6303598326437934"])
     (simp_all add: rne_evalI)

lemma rnd_fact_31: "rnd (8586760929801967071529389182351 / 20769187434139310514121985316880384) = Fin (7626575752974289 / 18446744073709551616)"
  by (rule rnd_evalI[where e = "- 12" and q = "1 / 2 ^ 64" and m = "7626575752974289"])
     (simp_all add: rne_evalI)

lemma rnd_fact_32: "rnd (2) = Fin (2)"
  by (rule rnd_evalI[where e = "1" and q = "1 / 2 ^ 51" and m = "4503599627370496"])
     (simp_all add: rne_evalI)

lemma rnd_fact_33: "rnd (972777519512027 / 36028797018963968) = Fin (972777519512027 / 36028797018963968)"
  by (rule rnd_evalI[where e = "- 6" and q = "1 / 2 ^ 58" and m = "7782220156096216"])
     (simp_all add: rne_evalI)

lemma rnd_fact_34: "rnd (67445908019500539 / 2305843009213693952) = Fin (8430738502437567 / 288230376151711744)"
  by (rule rnd_evalI[where e = "- 6" and q = "1 / 2 ^ 58" and m = "8430738502437567"])
     (simp_all add: rne_evalI)

lemma rnd_fact_35: "rnd (38911100780481079 / 1152921504606846976) = Fin (4863887597560135 / 144115188075855872)"
  by (rule rnd_evalI[where e = "- 5" and q = "1 / 2 ^ 57" and m = "4863887597560135"])
     (simp_all add: rne_evalI)

lemma rnd_fact_36: "rnd (23657402561699301767604941218225 / 20769187434139310514121985316880384) = Fin (5252998605364945 / 4611686018427387904)"
  by (rule rnd_evalI[where e = "- 10" and q = "1 / 2 ^ 62" and m = "5252998605364945"])
     (simp_all add: rne_evalI)

lemma rnd_fact_37: "rnd (71077351696483229912400732879489 / 83076749736557242056487941267521536) = Fin (7891171238281561 / 9223372036854775808)"
  by (rule rnd_evalI[where e = "- 11" and q = "1 / 2 ^ 63" and m = "7891171238281561"])
     (simp_all add: rne_evalI)

lemma rnd_fact_38: "rnd (4645120130678179867092527379475 / 1298074214633706907132624082305024) = Fin (4125695456982985 / 1152921504606846976)"
  by (rule rnd_evalI[where e = "- 9" and q = "1 / 2 ^ 61" and m = "8251390913965970"])
     (simp_all add: rne_evalI)

lemma rnd_fact_39: "rnd (6978002685196553917713449949355 / 2596148429267413814265248164610048) = Fin (3098855698800553 / 1152921504606846976)"
  by (rule rnd_evalI[where e = "- 9" and q = "1 / 2 ^ 61" and m = "6197711397601106"])
     (simp_all add: rne_evalI)

lemma rnd_fact_40: "rnd (32088742443201 / 36028797018963968) = Fin (32088742443201 / 36028797018963968)"
  by (rule rnd_evalI[where e = "- 11" and q = "1 / 2 ^ 63" and m = "8214718065459456"])
     (simp_all add: rne_evalI)

lemma rnd_fact_41: "rnd (4980620899901579 / 16429436130918912) = Fin (5461105846878723 / 18014398509481984)"
  by (rule rnd_evalI[where e = "- 2" and q = "1 / 2 ^ 54" and m = "5461105846878723"])
     (simp_all add: rne_evalI)

lemma rnd_fact_42: "rnd (22530859582570764395076769528155 / 20769187434139310514121985316880384) = Fin (5002855814633281 / 4611686018427387904)"
  by (rule rnd_evalI[where e = "- 10" and q = "1 / 2 ^ 62" and m = "5002855814633281"])
     (simp_all add: rne_evalI)

lemma rnd_fact_43: "rnd (16923178975353150952549956333819 / 20769187434139310514121985316880384) = Fin (7515401179315773 / 9223372036854775808)"
  by (rule rnd_evalI[where e = "- 11" and q = "1 / 2 ^ 63" and m = "7515401179315773"])
     (simp_all add: rne_evalI)

lemma rnd_fact_44: "rnd (4980620899901579 / 18446744073709551616) = Fin (4980620899901579 / 18446744073709551616)"
  by (rule rnd_evalI[where e = "- 12" and q = "1 / 2 ^ 64" and m = "4980620899901579"])
     (simp_all add: rne_evalI)

lemma rnd_fact_45: "rnd (2490310449950789 / 9223372036854775808) = Fin (2490310449950789 / 9223372036854775808)"
  by (rule rnd_evalI[where e = "- 12" and q = "1 / 2 ^ 64" and m = "4980620899901578"])
     (simp_all add: rne_evalI)

lemma rnd_fact_46: "rnd (92233720368547760 / 2347062304416987) = Fin (5530633814836671 / 140737488355328)"
  by (rule rnd_evalI[where e = "5" and q = "1 / 2 ^ 47" and m = "5530633814836671"])
     (simp_all add: rne_evalI)

lemma rnd_fact_47: "rnd (29206669829258406235527340302291 / 5192296858534827628530496329220096) = Fin (3242591731706757 / 576460752303423488)"
  by (rule rnd_evalI[where e = "- 8" and q = "1 / 2 ^ 60" and m = "6485183463413514"])
     (simp_all add: rne_evalI)

lemma rnd_fact_48: "rnd (25961484292674143177628380697225 / 41538374868278621028243970633760768) = Fin (1441151880758559 / 2305843009213693952)"
  by (rule rnd_evalI[where e = "- 11" and q = "1 / 2 ^ 63" and m = "5764607523034236"])
     (simp_all add: rne_evalI)

lemma rnd_fact_49: "rnd (5764607523034235 / 586765576104247) = Fin (5530633814836669 / 562949953421312)"
  by (rule rnd_evalI[where e = "3" and q = "1 / 2 ^ 49" and m = "5530633814836669"])
     (simp_all add: rne_evalI)

lemma rnd_fact_50: "rnd (32857503557915697206953022292831 / 2596148429267413814265248164610048) = Fin (3647915698170101 / 288230376151711744)"
  by (rule rnd_evalI[where e = "- 7" and q = "1 / 2 ^ 59" and m = "7295831396340202"])
     (simp_all add: rne_evalI)

lemma rnd_fact_51: "rnd (19876761411578627546946533359859 / 2596148429267413814265248164610048) = Fin (1103381908705771 / 144115188075855872)"
  by (rule rnd_evalI[where e = "- 8" and q = "1 / 2 ^ 60" and m = "8827055269646168"])
     (simp_all add: rne_evalI)

lemma rnd_fact_52: "rnd (5764607523034235 / 1026839758182432) = Fin (6320724359813337 / 1125899906842624)"
  by (rule rnd_evalI[where e = "2" and q = "1 / 2 ^ 50" and m = "6320724359813337"])
     (simp_all add: rne_evalI)

lemma rnd_fact_53: "rnd (26077383776123570703927785070945 / 1298074214633706907132624082305024) = Fin (5790342378047779 / 288230376151711744)"
  by (rule rnd_evalI[where e = "- 6" and q = "1 / 2 ^ 58" and m = "5790342378047779"])
     (simp_all add: rne_evalI)

lemma rnd_fact_54: "rnd (19587012702955036427265872375361 / 1298074214633706907132624082305024) = Fin (8698380994578441 / 576460752303423488)"
  by (rule rnd_evalI[where e = "- 7" and q = "1 / 2 ^ 59" and m = "8698380994578441"])
     (simp_all add: rne_evalI)

lemma rnd_fact_55: "rnd (11529215046068469 / 2305843009213693952) = Fin (2882303761517117 / 576460752303423488)"
  by (rule rnd_evalI[where e = "- 8" and q = "1 / 2 ^ 60" and m = "5764607523034234"])
     (simp_all add: rne_tieI[where f = "5764607523034234"])

lemma rnd_fact_56: "rnd (1441151880758559 / 288230376151711744) = Fin (1441151880758559 / 288230376151711744)"
  by (rule rnd_evalI[where e = "- 8" and q = "1 / 2 ^ 60" and m = "5764607523034236"])
     (simp_all add: rne_evalI)

lemma rnd_fact_57: "rnd (2882303761517117 / 576460752303423488) = Fin (2882303761517117 / 576460752303423488)"
  by (rule rnd_evalI[where e = "- 8" and q = "1 / 2 ^ 60" and m = "5764607523034234"])
     (simp_all add: rne_evalI)

lemma rnd_fact_58: "rnd (5280890184938221 / 36893488147419103232) = Fin (5280890184938221 / 36893488147419103232)"
  by (rule rnd_evalI[where e = "- 13" and q = "1 / 2 ^ 65" and m = "5280890184938221"])
     (simp_all add: rne_evalI)

lemma rnd_fact_59: "rnd (4694124608833975 / 295147905179352825856) = Fin (4694124608833975 / 295147905179352825856)"
  by (rule rnd_evalI[where e = "- 16" and q = "1 / 2 ^ 68" and m = "4694124608833975"])
     (simp_all add: rne_evalI)

lemma rnd_fact_60: "rnd (5941001458055499 / 4611686018427387904) = Fin (5941001458055499 / 4611686018427387904)"
  by (rule rnd_evalI[where e = "- 10" and q = "1 / 2 ^ 62" and m = "5941001458055499"])
     (simp_all add: rne_evalI)

lemma rnd_fact_61: "rnd (3593939153638511 / 4611686018427387904) = Fin (3593939153638511 / 4611686018427387904)"
  by (rule rnd_evalI[where e = "- 11" and q = "1 / 2 ^ 63" and m = "7187878307277022"])
     (simp_all add: rne_evalI)

lemma rnd_fact_62: "rnd (4125695456982985 / 1152921504606846976) = Fin (4125695456982985 / 1152921504606846976)"
  by (rule rnd_evalI[where e = "- 9" and q = "1 / 2 ^ 61" and m = "8251390913965970"])
     (simp_all add: rne_evalI)

lemma rnd_fact_63: "rnd (3098855698800553 / 1152921504606846976) = Fin (3098855698800553 / 1152921504606846976)"
  by (rule rnd_evalI[where e = "- 9" and q = "1 / 2 ^ 61" and m = "6197711397601106"])
     (simp_all add: rne_evalI)

lemma rnd_fact_64: "rnd (5188146770730811 / 576460752303423488) = Fin (5188146770730811 / 576460752303423488)"
  by (rule rnd_evalI[where e = "- 7" and q = "1 / 2 ^ 59" and m = "5188146770730811"])
     (simp_all add: rne_evalI)

lemma rnd_fact_65: "rnd (5188146770730811 / 288230376151711744) = Fin (5188146770730811 / 288230376151711744)"
  by (rule rnd_evalI[where e = "- 6" and q = "1 / 2 ^ 58" and m = "5188146770730811"])
     (simp_all add: rne_evalI)

lemma rnd_fact_66: "rnd (46693320936577299 / 2305843009213693952) = Fin (2918332558536081 / 144115188075855872)"
  by (rule rnd_evalI[where e = "- 6" and q = "1 / 2 ^ 58" and m = "5836665117072162"])
     (simp_all add: rne_evalI)

lemma rnd_fact_67: "rnd (2918332558536081 / 144115188075855872) = Fin (2918332558536081 / 144115188075855872)"
  by (rule rnd_evalI[where e = "- 6" and q = "1 / 2 ^ 58" and m = "5836665117072162"])
     (simp_all add: rne_evalI)

lemma rnd_fact_68: "rnd (884279719003555 / 281474976710656) = Fin (884279719003555 / 281474976710656)"
  by (rule rnd_evalI[where e = "1" and q = "1 / 2 ^ 51" and m = "7074237752028440"])
     (simp_all add: rne_evalI)

lemma rnd_fact_69: "rnd (- 1) = Fin (- 1)"
  by (rule rnd_evalI[where e = "0" and q = "1 / 2 ^ 52" and m = "- 4503599627370496"])
     (simp_all add: rne_evalI)

lemma rnd_fact_70: "rnd (4) = Fin (4)"
  by (rule rnd_evalI[where e = "2" and q = "1 / 2 ^ 50" and m = "4503599627370496"])
     (simp_all add: rne_evalI)

lemma rnd_fact_71: "rnd (884279719003555 / 70368744177664) = Fin (884279719003555 / 70368744177664)"
  by (rule rnd_evalI[where e = "3" and q = "1 / 2 ^ 49" and m = "7074237752028440"])
     (simp_all add: rne_evalI)

lemma rnd_fact_72: "rnd (- (2652839157010665 / 281474976710656)) = Fin (- (2652839157010665 / 281474976710656))"
  by (rule rnd_evalI[where e = "3" and q = "1 / 2 ^ 49" and m = "- 5305678314021330"])
     (simp_all add: rne_evalI)

lemma rnd_fact_73: "rnd (- (281474976710656 / 884279719003555)) = Fin (- (5734161139222659 / 18014398509481984))"
  by (rule rnd_evalI[where e = "- 2" and q = "1 / 2 ^ 54" and m = "- 5734161139222659"])
     (simp_all add: rne_evalI)

lemma rnd_fact_74: "rnd (- (5070602400912917721802757552745 / 5070602400912917605986812821504)) = Fin (- 1)"
  by (rule rnd_evalI[where e = "0" and q = "1 / 2 ^ 52" and m = "- 4503599627370496"])
     (simp_all add: rne_evalI)

lemma rnd_fact_75: "rnd (- (5070602400912917721802757552745 / 1267650600228229401496703205376)) = Fin (- 4)"
  by (rule rnd_evalI[where e = "2" and q = "1 / 2 ^ 50" and m = "- 4503599627370496"])
     (simp_all add: rne_evalI)

lemma rnd_fact_76: "rnd (12999999999999999438322098794574906741241322790552194538119357436456535537607035931016983603249767945252974976541954879599487129611252739907155155400785920) = Fin (12999999999999999438322098794574906741241322790552194538119357436456535537607035931016983603249767945252974976541954879599487129611252739907155155400785920)"
  by (rule rnd_evalI[where e = "511" and q = "2 ^ 459" and m = "8733238939837215"])
     (simp_all add: rne_evalI)

lemma rnd_fact_77: "rnd (168999999999999985396374568658947890754339095085628488808219594795931133320337451939827091333391367007305670725457623458307002085898638873014351393589700438255180214899117191618524871475635342938127556229558276413145697240444233612828509184085466537389405599472352938543619745179908675493811919464553670246400) = Fin (168999999999999980300386410400462999652606702556800506780736441403394871106790202375917593788844113761867484621363209786485161662246958114372508570894055281809793691533777476487767489720579358393834478148698590418885204147225498222218721205574135404227868010351438760451037352631356056093855808371361769848832)"
  by (rule rnd_evalI[where e = "1023" and q = "2 ^ 971" and m = "8467611321037909"])
     (simp_all add: rne_evalI)

lemma rnd_fact_78: "rnd (530929158456674974715494494540408156850040905248310531670755952471763451390326082146892550540690099929248735011239970499588363008855181773851156195902522410317056310888600174601971281434356757897521473271257659551475157774921367697807131202070341809944361655214668719488283657301376485052300049831896767528960) = PInf"
  by (rule rnd_overflowI[where e = "1025" and q = "2 ^ 973" and m = "6650446379906615"])
     (simp_all add: rne_evalI)

lemma rnd_fact_79: "rnd (1 / 2) = Fin (1 / 2)"
  by (rule rnd_evalI[where e = "- 1" and q = "1 / 2 ^ 53" and m = "4503599627370496"])
     (simp_all add: rne_evalI)

lemma rnd_fact_80: "rnd (6490371073168535 / 649037107316853453566312041152512) = Fin (6490371073168535 / 649037107316853453566312041152512)"
  by (rule rnd_evalI[where e = "- 57" and q = "1 / 2 ^ 109" and m = "6490371073168535"])
     (simp_all add: rne_evalI)

lemma rnd_fact_81: "rnd (324518553658426733273527093744791 / 649037107316853453566312041152512) = Fin (1 / 2)"
  by (rule rnd_evalI[where e = "- 1" and q = "1 / 2 ^ 53" and m = "4503599627370496"])
     (simp_all add: rne_evalI)

lemma rnd_fact_82: "rnd (1 / 4) = Fin (1 / 4)"
  by (rule rnd_evalI[where e = "- 2" and q = "1 / 2 ^ 54" and m = "4503599627370496"])
     (simp_all add: rne_evalI)

lemma rnd_fact_83: "rnd (884279719003555 / 1125899906842624) = Fin (884279719003555 / 1125899906842624)"
  by (rule rnd_evalI[where e = "- 1" and q = "1 / 2 ^ 53" and m = "7074237752028440"])
     (simp_all add: rne_evalI)

lemma rnd_fact_84: "rnd (25940733853654055 / 2305843009213693952) = Fin (3242591731706757 / 288230376151711744)"
  by (rule rnd_evalI[where e = "- 7" and q = "1 / 2 ^ 59" and m = "6485183463413514"])
     (simp_all add: rne_evalI)

lemma rnd_fact_85: "rnd (18158513697557839 / 1152921504606846976) = Fin (1134907106097365 / 72057594037927936)"
  by (rule rnd_evalI[where e = "- 6" and q = "1 / 2 ^ 58" and m = "4539628424389460"])
     (simp_all add: rne_evalI)

lemma rnd_fact_86: "rnd (1288014139470295696760859943225 / 5192296858534827628530496329220096) = Fin (35749573842067 / 144115188075855872)"
  by (rule rnd_evalI[where e = "- 12" and q = "1 / 2 ^ 64" and m = "4575945451784576"])
     (simp_all add: rne_evalI)

lemma rnd_fact_87: "rnd (10514401138533025169552239457049 / 83076749736557242056487941267521536) = Fin (2334666046828865 / 18446744073709551616)"
  by (rule rnd_evalI[where e = "- 13" and q = "1 / 2 ^ 65" and m = "4669332093657730"])
     (simp_all add: rne_evalI)

lemma rnd_fact_88: "rnd (31612623111559846874181548185 / 40564819207303340847894502572032) = Fin (7187878307277025 / 9223372036854775808)"
  by (rule rnd_evalI[where e = "- 11" and q = "1 / 2 ^ 63" and m = "7187878307277025"])
     (simp_all add: rne_evalI)

lemma rnd_fact_89: "rnd (2064497835856969321085411615075 / 5192296858534827628530496329220096) = Fin (3667284850651543 / 9223372036854775808)"
  by (rule rnd_evalI[where e = "- 12" and q = "1 / 2 ^ 64" and m = "7334569701303086"])
     (simp_all add: rne_evalI)

lemma rnd_fact_90: "rnd (1760296728312741 / 4611686018427387904) = Fin (1760296728312741 / 4611686018427387904)"
  by (rule rnd_evalI[where e = "- 12" and q = "1 / 2 ^ 64" and m = "7041186913250964"])
     (simp_all add: rne_evalI)

lemma rnd_fact_91: "rnd (4980620899901579 / 7041186913250964) = Fin (3185645077345921 / 4503599627370496)"
  by (rule rnd_evalI[where e = "- 1" and q = "1 / 2 ^ 53" and m = "6371290154691842"])
     (simp_all add: rne_evalI)

lemma rnd_fact_92: "rnd (22898029146138586018387500765025 / 41538374868278621028243970633760768) = Fin (2542191917658097 / 4611686018427387904)"
  by (rule rnd_evalI[where e = "- 11" and q = "1 / 2 ^ 63" and m = "5084383835316194"])
     (simp_all add: rne_evalI)

lemma rnd_fact_93: "rnd (11682667931703359043226043406103 / 41538374868278621028243970633760768) = Fin (2594073385365405 / 9223372036854775808)"
  by (rule rnd_evalI[where e = "- 12" and q = "1 / 2 ^ 64" and m = "5188146770730810"])
     (simp_all add: rne_evalI)

lemma rnd_fact_94: "rnd (3) = Fin (3)"
  by (rule rnd_evalI[where e = "1" and q = "1 / 2 ^ 51" and m = "6755399441055744"])
     (simp_all add: rne_evalI)

lemma rnd_fact_95: "rnd (1800) = Fin (1800)"
  by (rule rnd_evalI[where e = "10" and q = "1 / 2 ^ 42" and m = "7916483719987200"])
     (simp_all add: rne_evalI)

lemma rnd_fact_96: "rnd (5902958103587057 / 295147905179352825856) = Fin (5902958103587057 / 295147905179352825856)"
  by (rule rnd_evalI[where e = "- 16" and q = "1 / 2 ^ 68" and m = "5902958103587057"])
     (simp_all add: rne_evalI)

lemma rnd_fact_97: "rnd (1062532464548628276668657 / 590295810358705651712) = Fin (7916483763967665 / 4398046511104)"
  by (rule rnd_evalI[where e = "10" and q = "1 / 2 ^ 42" and m = "7916483763967665"])
     (simp_all add: rne_evalI)

lemma rnd_fact_98: "rnd (62670715185163648690983165552225 / 19342813113834066795298816) = Fin (6957847096829411 / 2147483648)"
  by (rule rnd_evalI[where e = "21" and q = "1 / 2 ^ 31" and m = "6957847096829411"])
     (simp_all add: rne_evalI)

lemma rnd_fact_99: "rnd (3240000) = Fin (3240000)"
  by (rule rnd_evalI[where e = "21" and q = "1 / 2 ^ 31" and m = "6957847019520000"])
     (simp_all add: rne_evalI)

lemma rnd_fact_100: "rnd (6152683075654012496444737556105 / 604462909807314587353088) = Fin (5464680331050087 / 536870912)"
  by (rule rnd_evalI[where e = "23" and q = "1 / 2 ^ 29" and m = "5464680331050087"])
     (simp_all add: rne_evalI)

lemma rnd_fact_101: "rnd (44766660774554971875 / 4398046511104) = Fin (5464680270331417 / 536870912)"
  by (rule rnd_evalI[where e = "23" and q = "1 / 2 ^ 29" and m = "5464680270331417"])
     (simp_all add: rne_evalI)

lemma rnd_fact_102: "rnd (30359335 / 268435456) = Fin (30359335 / 268435456)"
  by (rule rnd_evalI[where e = "- 4" and q = "1 / 2 ^ 56" and m = "8149521934581760"])
     (simp_all add: rne_evalI)

lemma rnd_fact_103: "rnd (4980620899901579 / 2086277615252930560) = Fin (5504794663767383 / 2305843009213693952)"
  by (rule rnd_evalI[where e = "- 9" and q = "1 / 2 ^ 61" and m = "5504794663767383"])
     (simp_all add: rne_evalI)

lemma rnd_fact_104: "rnd (30081943125559094889767889912321 / 1237940039285380274899124224) = Fin (6679533176692031 / 274877906944)"
  by (rule rnd_evalI[where e = "14" and q = "1 / 2 ^ 38" and m = "6679533176692031"])
     (simp_all add: rne_evalI)

lemma rnd_fact_105: "rnd (30081942791315284282715204771711 / 1237940039285380274899124224) = Fin (1669883275618749 / 68719476736)"
  by (rule rnd_evalI[where e = "14" and q = "1 / 2 ^ 38" and m = "6679533102474996"])
     (simp_all add: rne_evalI)

lemma rnd_fact_106: "rnd (531266235225793190127857 / 295147905179352825856) = Fin (3958241903974065 / 2199023255552)"
  by (rule rnd_evalI[where e = "10" and q = "1 / 2 ^ 42" and m = "7916483807948130"])
     (simp_all add: rne_evalI)

lemma rnd_fact_107: "rnd (1062532476354544454035697 / 590295810358705651712) = Fin (7916483851928595 / 4398046511104)"
  by (rule rnd_evalI[where e = "10" and q = "1 / 2 ^ 42" and m = "7916483851928595"])
     (simp_all add: rne_evalI)

lemma rnd_fact_108: "rnd (62670716577846204845100978674025 / 19342813113834066795298816) = Fin (6957847251448235 / 2147483648)"
  by (rule rnd_evalI[where e = "21" and q = "1 / 2 ^ 31" and m = "6957847251448235"])
     (simp_all add: rne_evalI)

lemma rnd_fact_109: "rnd (15667678970376231208440192624225 / 4835703278458516698824704) = Fin (6957847174138823 / 2147483648)"
  by (rule rnd_evalI[where e = "21" and q = "1 / 2 ^ 31" and m = "6957847174138823"])
     (simp_all add: rne_evalI)

lemma rnd_fact_110: "rnd (6152683212380302735824863475425 / 604462909807314587353088) = Fin (5464680452487427 / 536870912)"
  by (rule rnd_evalI[where e = "23" and q = "1 / 2 ^ 29" and m = "5464680452487427"])
     (simp_all add: rne_evalI)

lemma rnd_fact_111: "rnd (6152683144017157616134800515765 / 604462909807314587353088) = Fin (5464680391768757 / 536870912)"
  by (rule rnd_evalI[where e = "23" and q = "1 / 2 ^ 29" and m = "5464680391768757"])
     (simp_all add: rne_evalI)

lemma rnd_fact_112: "rnd (30081943794046716103873260193541 / 1237940039285380274899124224) = Fin (1669883331281525 / 68719476736)"
  by (rule rnd_evalI[where e = "14" and q = "1 / 2 ^ 38" and m = "6679533325126100"])
     (simp_all add: rne_evalI)

lemma rnd_fact_113: "rnd (30081943459802905496820575052931 / 1237940039285380274899124224) = Fin (3339766625454533 / 137438953472)"
  by (rule rnd_evalI[where e = "14" and q = "1 / 2 ^ 38" and m = "6679533250909066"])
     (simp_all add: rne_evalI)

lemma rnd_fact_114: "rnd (15842670554814663 / 36893488147419103232) = Fin (1980333819351833 / 4611686018427387904)"
  by (rule rnd_evalI[where e = "- 12" and q = "1 / 2 ^ 64" and m = "7921335277407332"])
     (simp_all add: rne_tieI[where f = "7921335277407331"])

lemma rnd_fact_115: "rnd (14082373826501925 / 295147905179352825856) = Fin (3520593456625481 / 73786976294838206464)"
  by (rule rnd_evalI[where e = "- 15" and q = "1 / 2 ^ 67" and m = "7041186913250962"])
     (simp_all add: rne_tieI[where f = "7041186913250962"])

lemma rnd_fact_116: "rnd (17823004374166497 / 4611686018427387904) = Fin (556968886692703 / 144115188075855872)"
  by (rule rnd_evalI[where e = "- 9" and q = "1 / 2 ^ 61" and m = "8911502187083248"])
     (simp_all add: rne_tieI[where f = "8911502187083248"])

lemma rnd_fact_117: "rnd (10781817460915533 / 4611686018427387904) = Fin (2695454365228883 / 1152921504606846976)"
  by (rule rnd_evalI[where e = "- 9" and q = "1 / 2 ^ 61" and m = "5390908730457766"])
     (simp_all add: rne_tieI[where f = "5390908730457766"])

lemma rnd_fact_118: "rnd (12377086370948955 / 1152921504606846976) = Fin (3094271592737239 / 288230376151711744)"
  by (rule rnd_evalI[where e = "- 7" and q = "1 / 2 ^ 59" and m = "6188543185474478"])
     (simp_all add: rne_tieI[where f = "6188543185474477"])

lemma rnd_fact_119: "rnd (9296567096401659 / 1152921504606846976) = Fin (2324141774100415 / 288230376151711744)"
  by (rule rnd_evalI[where e = "- 7" and q = "1 / 2 ^ 59" and m = "4648283548200830"])
     (simp_all add: rne_tieI[where f = "4648283548200829"])

lemma rnd_fact_120: "rnd (28164747653003847 / 73786976294838206464) = Fin (3520593456625481 / 9223372036854775808)"
  by (rule rnd_evalI[where e = "- 12" and q = "1 / 2 ^ 64" and m = "7041186913250962"])
     (simp_all add: rne_evalI)

lemma rnd_fact_121: "rnd (1760296728312741 / 1152921504606846976) = Fin (1760296728312741 / 1152921504606846976)"
  by (rule rnd_evalI[where e = "- 10" and q = "1 / 2 ^ 62" and m = "7041186913250964"])
     (simp_all add: rne_evalI)

lemma rnd_fact_122: "rnd (96266227329603 / 36028797018963968) = Fin (96266227329603 / 36028797018963968)"
  by (rule rnd_evalI[where e = "- 9" and q = "1 / 2 ^ 61" and m = "6161038549094592"])
     (simp_all add: rne_evalI)

lemma rnd_fact_123: "rnd (7041186913250962 / 2347062304416987) = Fin (6755399441055745 / 2251799813685248)"
  by (rule rnd_evalI[where e = "1" and q = "1 / 2 ^ 51" and m = "6755399441055745"])
     (simp_all add: rne_evalI)

lemma rnd_fact_124: "rnd (9 / 4000) = Fin (5188146770730811 / 2305843009213693952)"
  by (rule rnd_evalI[where e = "- 9" and q = "1 / 2 ^ 61" and m = "5188146770730811"])
     (simp_all add: rne_evalI)

lemma rnd_fact_125: "rnd (27 / 4000) = Fin (7782220156096217 / 1152921504606846976)"
  by (rule rnd_evalI[where e = "- 8" and q = "1 / 2 ^ 60" and m = "7782220156096217"])
     (simp_all add: rne_evalI)

lemma rnd_fact_126: "rnd (27 / 2000) = Fin (7782220156096217 / 576460752303423488)"
  by (rule rnd_evalI[where e = "- 7" and q = "1 / 2 ^ 59" and m = "7782220156096217"])
     (simp_all add: rne_evalI)

lemma rnd_fact_127: "rnd (6749999999999999 / 1000000000000000000) = Fin (972777519512027 / 144115188075855872)"
  by (rule rnd_evalI[where e = "- 8" and q = "1 / 2 ^ 60" and m = "7782220156096216"])
     (simp_all add: rne_evalI)

lemma rnd_fact_128: "rnd (1431388152791849 / 10000000000000000000) = Fin (5280890184938221 / 36893488147419103232)"
  by (rule rnd_evalI[where e = "- 13" and q = "1 / 2 ^ 65" and m = "5280890184938221"])
     (simp_all add: rne_evalI)

lemma rnd_fact_129: "rnd (7952156404399163 / 500000000000000000000) = Fin (4694124608833975 / 295147905179352825856)"
  by (rule rnd_evalI[where e = "- 16" and q = "1 / 2 ^ 68" and m = "4694124608833975"])
     (simp_all add: rne_evalI)

lemma rnd_fact_130: "rnd (6361725123519329 / 50000000000000000000) = Fin (2347062304416987 / 18446744073709551616)"
  by (rule rnd_evalI[where e = "- 13" and q = "1 / 2 ^ 65" and m = "4694124608833974"])
     (simp_all add: rne_evalI)

lemma rnd_fact_131: "rnd (10610329539459693 / 5000000000000000) = Fin (1194616904004721 / 562949953421312)"
  by (rule rnd_evalI[where e = "1" and q = "1 / 2 ^ 51" and m = "4778467616018884"])
     (simp_all add: rne_evalI)

lemma rnd_fact_132: "rnd (7593750000000001 / 25000000000000000000) = Fin (5603198512389277 / 18446744073709551616)"
  by (rule rnd_evalI[where e = "- 12" and q = "1 / 2 ^ 64" and m = "5603198512389277"])
     (simp_all add: rne_evalI)

lemma rnd_fact_133: "rnd (3375000000000001 / 100000000000000000000) = Fin (1245155224975395 / 36893488147419103232)"
  by (rule rnd_evalI[where e = "- 15" and q = "1 / 2 ^ 67" and m = "4980620899901580"])
     (simp_all add: rne_evalI)

lemma rnd_fact_134: "rnd (13500000000000003 / 50000000000000000000) = Fin (1245155224975395 / 4611686018427387904)"
  by (rule rnd_evalI[where e = "- 12" and q = "1 / 2 ^ 64" and m = "4980620899901580"])
     (simp_all add: rne_evalI)

lemma rnd_fact_135: "rnd (6749999999999999 / 500000000000000000) = Fin (972777519512027 / 72057594037927936)"
  by (rule rnd_evalI[where e = "- 7" and q = "1 / 2 ^ 59" and m = "7782220156096216"])
     (simp_all add: rne_evalI)

lemma rnd_fact_136: "rnd (- (3375000000000001 / 100000000000000000000)) = Fin (- (1245155224975395 / 36893488147419103232))"
  by (rule rnd_evalI[where e = "- 15" and q = "1 / 2 ^ 67" and m = "- 4980620899901580"])
     (simp_all add: rne_evalI)

lemma rnd_fact_137: "rnd (4999999999999999 / 1000000000000000000) = Fin (2882303761517117 / 576460752303423488)"
  by (rule rnd_evalI[where e = "- 8" and q = "1 / 2 ^ 60" and m = "5764607523034234"])
     (simp_all add: rne_evalI)

lemma rnd_fact_138: "rnd (5000000000000001 / 1000000000000000000) = Fin (1441151880758559 / 288230376151711744)"
  by (rule rnd_evalI[where e = "- 8" and q = "1 / 2 ^ 60" and m = "5764607523034236"])
     (simp_all add: rne_evalI)

lemma rnd_fact_139: "rnd (9824379203203419 / 250000000000000) = Fin (5530633814836671 / 140737488355328)"
  by (rule rnd_evalI[where e = "5" and q = "1 / 2 ^ 47" and m = "5530633814836671"])
     (simp_all add: rne_evalI)

lemma rnd_fact_140: "rnd (9 / 1600) = Fin (3242591731706757 / 576460752303423488)"
  by (rule rnd_evalI[where e = "- 8" and q = "1 / 2 ^ 60" and m = "6485183463413514"])
     (simp_all add: rne_evalI)

lemma rnd_fact_141: "rnd (6250000000000001 / 10000000000000000000) = Fin (1441151880758559 / 2305843009213693952)"
  by (rule rnd_evalI[where e = "- 11" and q = "1 / 2 ^ 63" and m = "5764607523034236"])
     (simp_all add: rne_evalI)

lemma rnd_fact_142: "rnd (15749999999999997 / 1000000000000000000) = Fin (4539628424389459 / 288230376151711744)"
  by (rule rnd_evalI[where e = "- 6" and q = "1 / 2 ^ 58" and m = "4539628424389459"])
     (simp_all add: rne_evalI)

lemma rnd_fact_143: "rnd (20249999999999997 / 1000000000000000000) = Fin (2918332558536081 / 144115188075855872)"
  by (rule rnd_evalI[where e = "- 6" and q = "1 / 2 ^ 58" and m = "5836665117072162"])
     (simp_all add: rne_evalI)

lemma rnd_fact_144: "rnd (12882493375126643 / 10000000000000000000) = Fin (5941001458055499 / 4611686018427387904)"
  by (rule rnd_evalI[where e = "- 10" and q = "1 / 2 ^ 62" and m = "5941001458055499"])
     (simp_all add: rne_evalI)

lemma rnd_fact_145: "rnd (7793113276311177 / 10000000000000000000) = Fin (3593939153638511 / 4611686018427387904)"
  by (rule rnd_evalI[where e = "- 11" and q = "1 / 2 ^ 63" and m = "7187878307277022"])
     (simp_all add: rne_evalI)

lemma rnd_fact_146: "rnd (1017876019763093 / 2000000000000000000) = Fin (586765576104247 / 1152921504606846976)"
  by (rule rnd_evalI[where e = "- 11" and q = "1 / 2 ^ 63" and m = "4694124608833976"])
     (simp_all add: rne_evalI)

lemma rnd_fact_147: "rnd (1964875840640683 / 200000000000000) = Fin (5530633814836669 / 562949953421312)"
  by (rule rnd_evalI[where e = "3" and q = "1 / 2 ^ 49" and m = "5530633814836669"])
     (simp_all add: rne_evalI)

lemma rnd_fact_148: "rnd (12656249999999997 / 1000000000000000000) = Fin (3647915698170101 / 288230376151711744)"
  by (rule rnd_evalI[where e = "- 7" and q = "1 / 2 ^ 59" and m = "7295831396340202"])
     (simp_all add: rne_evalI)

lemma rnd_fact_149: "rnd (1914062499999999 / 250000000000000000) = Fin (1103381908705771 / 144115188075855872)"
  by (rule rnd_evalI[where e = "- 8" and q = "1 / 2 ^ 60" and m = "8827055269646168"])
     (simp_all add: rne_evalI)

lemma rnd_fact_150: "rnd (5849999999999999 / 200000000000000000) = Fin (8430738502437567 / 288230376151711744)"
  by (rule rnd_evalI[where e = "- 6" and q = "1 / 2 ^ 58" and m = "8430738502437567"])
     (simp_all add: rne_evalI)

lemma rnd_fact_151: "rnd (6749999999999999 / 200000000000000000) = Fin (4863887597560135 / 144115188075855872)"
  by (rule rnd_evalI[where e = "- 5" and q = "1 / 2 ^ 57" and m = "4863887597560135"])
     (simp_all add: rne_evalI)

lemma rnd_fact_152: "rnd (35784703819796227 / 10000000000000000000) = Fin (4125695456982985 / 1152921504606846976)"
  by (rule rnd_evalI[where e = "- 9" and q = "1 / 2 ^ 61" and m = "8251390913965970"])
     (simp_all add: rne_evalI)

lemma rnd_fact_153: "rnd (6719572161717291 / 2500000000000000000) = Fin (3098855698800553 / 1152921504606846976)"
  by (rule rnd_evalI[where e = "- 9" and q = "1 / 2 ^ 61" and m = "6197711397601106"])
     (simp_all add: rne_evalI)

lemma rnd_fact_154: "rnd (4453207586463531 / 5000000000000000000) = Fin (32088742443201 / 36028797018963968)"
  by (rule rnd_evalI[where e = "- 11" and q = "1 / 2 ^ 63" and m = "8214718065459456"])
     (simp_all add: rne_evalI)

lemma rnd_fact_155: "rnd (1122786194651819 / 200000000000000) = Fin (6320724359813337 / 1125899906842624)"
  by (rule rnd_evalI[where e = "2" and q = "1 / 2 ^ 50" and m = "6320724359813337"])
     (simp_all add: rne_evalI)

lemma rnd_fact_156: "rnd (2008928571428571 / 100000000000000000) = Fin (5790342378047779 / 288230376151711744)"
  by (rule rnd_evalI[where e = "- 6" and q = "1 / 2 ^ 58" and m = "5790342378047779"])
     (simp_all add: rne_evalI)

lemma rnd_fact_157: "rnd (1508928571428571 / 100000000000000000) = Fin (8698380994578441 / 576460752303423488)"
  by (rule rnd_evalI[where e = "- 7" and q = "1 / 2 ^ 59" and m = "8698380994578441"])
     (simp_all add: rne_evalI)

lemma rnd_fact_158: "rnd (3141592653589793 / 1000000000000000) = Fin (884279719003555 / 281474976710656)"
  by (rule rnd_evalI[where e = "1" and q = "1 / 2 ^ 51" and m = "7074237752028440"])
     (simp_all add: rne_evalI)

lemma rnd_fact_159: "rnd (3141592653589793 / 250000000000000) = Fin (884279719003555 / 70368744177664)"
  by (rule rnd_evalI[where e = "3" and q = "1 / 2 ^ 49" and m = "7074237752028440"])
     (simp_all add: rne_evalI)

lemma rnd_fact_160: "rnd (- (471238898038469 / 50000000000000)) = Fin (- (2652839157010665 / 281474976710656))"
  by (rule rnd_evalI[where e = "3" and q = "1 / 2 ^ 49" and m = "- 5305678314021330"])
     (simp_all add: rne_evalI)

lemma rnd_fact_161: "rnd (- (3183098861837907 / 10000000000000000)) = Fin (- (5734161139222659 / 18014398509481984))"
  by (rule rnd_evalI[where e = "- 2" and q = "1 / 2 ^ 54" and m = "- 5734161139222659"])
     (simp_all add: rne_evalI)

lemma rnd_fact_162: "rnd (13000000000000000000000000000000000000000000000000000000000000000000000000000000000000000000000000000000000000000000000000000000000000000000000000000000000) = Fin (12999999999999999438322098794574906741241322790552194538119357436456535537607035931016983603249767945252974976541954879599487129611252739907155155400785920)"
  by (rule rnd_evalI[where e = "511" and q = "2 ^ 459" and m = "8733238939837215"])
     (simp_all add: rne_evalI)

lemma rnd_fact_163: "rnd (63 / 4000) = Fin (1134907106097365 / 72057594037927936)"
  by (rule rnd_evalI[where e = "- 6" and q = "1 / 2 ^ 58" and m = "4539628424389460"])
     (simp_all add: rne_evalI)

lemma rnd_fact_164: "rnd (9 / 800) = Fin (3242591731706757 / 288230376151711744)"
  by (rule rnd_evalI[where e = "- 7" and q = "1 / 2 ^ 59" and m = "6485183463413514"])
     (simp_all add: rne_evalI)

lemma rnd_fact_165: "rnd (180000001 / 100000) = Fin (7916483763967665 / 4398046511104)"
  by (rule rnd_evalI[where e = "10" and q = "1 / 2 ^ 42" and m = "7916483763967665"])
     (simp_all add: rne_evalI)

lemma rnd_fact_166: "rnd (2035752062145653 / 200000000) = Fin (5464680331050087 / 536870912)"
  by (rule rnd_evalI[where e = "23" and q = "1 / 2 ^ 29" and m = "5464680331050087"])
     (simp_all add: rne_evalI)

lemma rnd_fact_167: "rnd (10178760197630929 / 1000000000) = Fin (5464680270331417 / 536870912)"
  by (rule rnd_evalI[where e = "23" and q = "1 / 2 ^ 29" and m = "5464680270331417"])
     (simp_all add: rne_evalI)

lemma rnd_fact_168: "rnd (11309733614325523 / 100000000000000000) = Fin (30359335 / 268435456)"
  by (rule rnd_evalI[where e = "- 4" and q = "1 / 2 ^ 56" and m = "8149521934581760"])
     (simp_all add: rne_evalI)

lemma rnd_fact_169: "rnd (11936620667086417 / 5000000000000000000) = Fin (5504794663767383 / 2305843009213693952)"
  by (rule rnd_evalI[where e = "- 9" and q = "1 / 2 ^ 61" and m = "5504794663767383"])
     (simp_all add: rne_evalI)

lemma rnd_fact_170: "rnd (4860000027614319 / 200000000000) = Fin (6679533176692031 / 274877906944)"
  by (rule rnd_evalI[where e = "14" and q = "1 / 2 ^ 38" and m = "6679533176692031"])
     (simp_all add: rne_evalI)

lemma rnd_fact_171: "rnd (12149999934035797 / 500000000000) = Fin (1669883275618749 / 68719476736)"
  by (rule rnd_evalI[where e = "14" and q = "1 / 2 ^ 38" and m = "6679533102474996"])
     (simp_all add: rne_evalI)

lemma rnd_fact_172: "rnd (90000001 / 50000) = Fin (3958241903974065 / 2199023255552)"
  by (rule rnd_evalI[where e = "10" and q = "1 / 2 ^ 42" and m = "7916483807948130"])
     (simp_all add: rne_evalI)

lemma rnd_fact_173: "rnd (180000003 / 100000) = Fin (7916483851928595 / 4398046511104)"
  by (rule rnd_evalI[where e = "10" and q = "1 / 2 ^ 42" and m = "7916483851928595"])
     (simp_all add: rne_evalI)

lemma rnd_fact_174: "rnd (10178760536922937 / 1000000000) = Fin (5464680452487427 / 536870912)"
  by (rule rnd_evalI[where e = "23" and q = "1 / 2 ^ 29" and m = "5464680452487427"])
     (simp_all add: rne_evalI)

lemma rnd_fact_175: "rnd (10178760423825601 / 1000000000) = Fin (5464680391768757 / 536870912)"
  by (rule rnd_evalI[where e = "23" and q = "1 / 2 ^ 29" and m = "5464680391768757"])
     (simp_all add: rne_evalI)

lemma rnd_fact_176: "rnd (3037500084758949 / 125000000000) = Fin (1669883331281525 / 68719476736)"
  by (rule rnd_evalI[where e = "14" and q = "1 / 2 ^ 38" and m = "6679533325126100"])
     (simp_all add: rne_evalI)

lemma rnd_fact_177: "rnd (4860000081614319 / 200000000000) = Fin (3339766625454533 / 137438953472)"
  by (rule rnd_evalI[where e = "14" and q = "1 / 2 ^ 38" and m = "6679533250909066"])
     (simp_all add: rne_evalI)

lemma rnd_fact_178: "rnd (10735411145938869 / 25000000000000000000) = Fin (1980333819351833 / 4611686018427387904)"
  by (rule rnd_evalI[where e = "- 12" and q = "1 / 2 ^ 64" and m = "7921335277407332"])
     (simp_all add: rne_evalI)

lemma rnd_fact_179: "rnd (1908517537055799 / 40000000000000000000) = Fin (3520593456625481 / 73786976294838206464)"
  by (rule rnd_evalI[where e = "- 15" and q = "1 / 2 ^ 67" and m = "7041186913250962"])
     (simp_all add: rne_evalI)

lemma rnd_fact_180: "rnd (1908517537055799 / 5000000000000000000) = Fin (3520593456625481 / 9223372036854775808)"
  by (rule rnd_evalI[where e = "- 12" and q = "1 / 2 ^ 64" and m = "7041186913250962"])
     (simp_all add: rne_evalI)

lemma rnd_fact_181: "rnd (7500000000000001 / 2500000000000000) = Fin (6755399441055745 / 2251799813685248)"
  by (rule rnd_evalI[where e = "1" and q = "1 / 2 ^ 51" and m = "6755399441055745"])
     (simp_all add: rne_evalI)

lemma rnd_fact_182: "rnd (5399999999999999 / 20000000000000000000) = Fin (2490310449950789 / 9223372036854775808)"
  by (rule rnd_evalI[where e = "- 12" and q = "1 / 2 ^ 64" and m = "4980620899901578"])
     (simp_all add: rne_evalI)

lemma rnd_fact_183: "rnd (1326291192432461 / 2500000000000000) = Fin (2389233808009441 / 4503599627370496)"
  by (rule rnd_evalI[where e = "- 1" and q = "1 / 2 ^ 53" and m = "4778467616018882"])
     (simp_all add: rne_evalI)

lemma rnd_fact_184: "rnd (3417187499999999 / 5000000000000000000) = Fin (3151799163218967 / 4611686018427387904)"
  by (rule rnd_evalI[where e = "- 11" and q = "1 / 2 ^ 63" and m = "6303598326437934"])
     (simp_all add: rne_evalI)

lemma rnd_fact_185: "rnd (2067187499999999 / 5000000000000000000) = Fin (7626575752974289 / 18446744073709551616)"
  by (rule rnd_evalI[where e = "- 12" and q = "1 / 2 ^ 64" and m = "7626575752974289"])
     (simp_all add: rne_evalI)

lemma rnd_fact_186: "rnd (15157613627799557 / 50000000000000000) = Fin (5461105846878723 / 18014398509481984)"
  by (rule rnd_evalI[where e = "- 2" and q = "1 / 2 ^ 54" and m = "5461105846878723"])
     (simp_all add: rne_evalI)

lemma rnd_fact_187: "rnd (10848214285714283 / 10000000000000000000) = Fin (5002855814633281 / 4611686018427387904)"
  by (rule rnd_evalI[where e = "- 10" and q = "1 / 2 ^ 62" and m = "5002855814633281"])
     (simp_all add: rne_evalI)

lemma rnd_fact_188: "rnd (8148214285714283 / 10000000000000000000) = Fin (7515401179315773 / 9223372036854775808)"
  by (rule rnd_evalI[where e = "- 11" and q = "1 / 2 ^ 63" and m = "7515401179315773"])
     (simp_all add: rne_evalI)

lemmas rnd_facts =
  rnd_fact_0 rnd_fact_1 rnd_fact_2 rnd_fact_3 rnd_fact_4 rnd_fact_5
  rnd_fact_6 rnd_fact_7 rnd_fact_8 rnd_fact_9 rnd_fact_10 rnd_fact_11
  rnd_fact_12 rnd_fact_13 rnd_fact_14 rnd_fact_15 rnd_fact_16 rnd_fact_17
  rnd_fact_18 rnd_fact_19 rnd_fact_20 rnd_fact_21 rnd_fact_22 rnd_fact_23
  rnd_fact_24 rnd_fact_25 rnd_fact_26 rnd_fact_27 rnd_fact_28 rnd_fact_29
  rnd_fact_30 rnd_fact_31 rnd_fact_32 rnd_fact_33 rnd_fact_34 rnd_fact_35
  rnd_fact_36 rnd_fact_37 rnd_fact_38 rnd_fact_39 rnd_fact_40 rnd_fact_41
  rnd_fact_42 rnd_fact_43 rnd_fact_44 rnd_fact_45 rnd_fact_46 rnd_fact_47
  rnd_fact_48 rnd_fact_49 rnd_fact_50 rnd_fact_51 rnd_fact_52 rnd_fact_53
  rnd_fact_54 rnd_fact_55 rnd_fact_56 rnd_fact_57 rnd_fact_58 rnd_fact_59
  rnd_fact_60 rnd_fact_61 rnd_fact_62 rnd_fact_63 rnd_fact_64 rnd_fact_65
  rnd_fact_66 rnd_fact_67 rnd_fact_68 rnd_fact_69 rnd_fact_70 rnd_fact_71
  rnd_fact_72 rnd_fact_73 rnd_fact_74 rnd_fact_75 rnd_fact_76 rnd_fact_77
  rnd_fact_78 rnd_fact_79 rnd_fact_80 rnd_fact_81 rnd_fact_82 rnd_fact_83
  rnd_fact_84 rnd_fact_85 rnd_fact_86 rnd_fact_87 rnd_fact_88 rnd_fact_89
  rnd_fact_90 rnd_fact_91 rnd_fact_92 rnd_fact_93 rnd_fact_94 rnd_fact_95
  rnd_fact_96 rnd_fact_97 rnd_fact_98 rnd_fact_99 rnd_fact_100 rnd_fact_101
  rnd_fact_102 rnd_fact_103 rnd_fact_104 rnd_fact_105 rnd_fact_106 rnd_fact_107
  rnd_fact_108 rnd_fact_109 rnd_fact_110 rnd_fact_111 rnd_fact_112 rnd_fact_113
  rnd_fact_114 rnd_fact_115 rnd_fact_116 rnd_fact_117 rnd_fact_118 rnd_fact_119
  rnd_fact_120 rnd_fact_121 rnd_fact_122 rnd_fact_123 rnd_fact_124 rnd_fact_125
  rnd_fact_126 rnd_fact_127 rnd_fact_128 rnd_fact_129 rnd_fact_130 rnd_fact_131
  rnd_fact_132 rnd_fact_133 rnd_fact_134 rnd_fact_135 rnd_fact_136 rnd_fact_137
  rnd_fact_138 rnd_fact_139 rnd_fact_140 rnd_fact_141 rnd_fact_142 rnd_fact_143
  rnd_fact_144 rnd_fact_145 rnd_fact_146 rnd_fact_147 rnd_fact_148 rnd_fact_149
  rnd_fact_150 rnd_fact_151 rnd_fact_152 rnd_fact_153 rnd_fact_154 rnd_fact_155
  rnd_fact_156 rnd_fact_157 rnd_fact_158 rnd_fact_159 rnd_fact_160 rnd_fact_161
  rnd_fact_162 rnd_fact_163 rnd_fact_164 rnd_fact_165 rnd_fact_166 rnd_fact_167
  rnd_fact_168 rnd_fact_169 rnd_fact_170 rnd_fact_171 rnd_fact_172 rnd_fact_173
  rnd_fact_174 rnd_fact_175 rnd_fact_176 rnd_fact_177 rnd_fact_178 rnd_fact_179
  rnd_fact_180 rnd_fact_181 rnd_fact_182 rnd_fact_183 rnd_fact_184 rnd_fact_185
  rnd_fact_186 rnd_fact_187 rnd_fact_188

lemma float_literal_0: "rnd (45 / 10000) = Fin (5188146770730811 / 1152921504606846976)"
  by (simp add: rnd_facts)

lemma float_literal_1: "rnd (90 / 10000) = Fin (5188146770730811 / 576460752303423488)"
  by (simp add: rnd_facts)

lemma float_literal_2: "rnd (27 / 100000) = Fin (4980620899901579 / 18446744073709551616)"
  by (simp add: rnd_facts)

lemma float_literal_3: "rnd (5 / 1000) = Fin (5764607523034235 / 1152921504606846976)"
  by (simp add: rnd_facts)

lemma float_literal_4: "rnd (225 / 100000) = Fin (5188146770730811 / 2305843009213693952)"
  by (simp add: rnd_facts)

lemma float_literal_5: "rnd (675 / 100000) = Fin (7782220156096217 / 1152921504606846976)"
  by (simp add: rnd_facts)

lemma float_literal_6: "rnd (1 / 10 ^ 17) = Fin (6490371073168535 / 649037107316853453566312041152512)"
  by (simp add: rnd_facts)

lemma float_literal_7: "rnd (1 / 10 ^ 5) = Fin (5902958103587057 / 590295810358705651712)"
  by (simp add: rnd_facts)

lemma float_literal_8: "rnd (26 * 10 ^ 153) = Fin (25999999999999998876644197589149813482482645581104389076238714872913071075214071862033967206499535890505949953083909759198974259222505479814310310801571840)"
  by (simp add: rnd_facts)

lemma float_literal_9: "rnd (135 / 10000) = Fin (7782220156096217 / 576460752303423488)"
  by (simp add: rnd_facts)

lemmas float_literals =
  float_literal_0 float_literal_1 float_literal_2 float_literal_3 float_literal_4 float_literal_5 float_literal_6 float_literal_7 float_literal_8 float_literal_9

lemma ring_scenario:
  "ring (default_args\<lparr>n_rings := 1, ring_flux := Some (Fin (4980620899901579 / 18446744073709551616))\<rparr>) 0 =
  Inr
  \<lparr>Rin = Fin (5188146770730811 / 2305843009213693952), Rout = Fin (972777519512027 / 144115188075855872), Aout = Fin (5280890184938221 / 36893488147419103232), Ain = Fin (4694124608833975 / 295147905179352825856),
        Aring = Fin (2347062304416987 / 18446744073709551616), I = Fin (1194616904004721 / 562949953421312),
        Fout = Fin (5603198512389277 / 18446744073709551616), Finn = Fin (1245155224975395 / 36893488147419103232)\<rparr>"
  by (simp add: ring_def radii_def Rc_def float_of_nat_def resolved_ring_flux_def truediv_def
      math_pi_def fsub_def default_args_def Let_def rnd_facts)

lemma ring_default_0:
  "ring (default_args) 0 =
  Inr
  \<lparr>Rin = Fin (5188146770730811 / 2305843009213693952), Rout = Fin (972777519512027 / 144115188075855872), Aout = Fin (5280890184938221 / 36893488147419103232), Ain = Fin (4694124608833975 / 295147905179352825856),
        Aring = Fin (2347062304416987 / 18446744073709551616), I = Fin (1194616904004721 / 562949953421312),
        Fout = Fin (5603198512389277 / 18446744073709551616), Finn = Fin (1245155224975395 / 36893488147419103232)\<rparr>"
  by (simp add: ring_def radii_def Rc_def float_of_nat_def resolved_ring_flux_def truediv_def
      math_pi_def fsub_def default_args_def Let_def rnd_facts)

lemma ring_default_1:
  "ring (default_args) (Suc 0) =
  Inr
  \<lparr>Rin = Fin (4539628424389459 / 288230376151711744), Rout = Fin (2918332558536081 / 144115188075855872), Aout = Fin (5941001458055499 / 4611686018427387904), Ain = Fin (3593939153638511 / 4611686018427387904),
        Aring = Fin (586765576104247 / 1152921504606846976), I = Fin (2389233808009441 / 4503599627370496),
        Fout = Fin (3151799163218967 / 4611686018427387904), Finn = Fin (7626575752974289 / 18446744073709551616)\<rparr>"
  by (simp add: ring_def radii_def Rc_def float_of_nat_def resolved_ring_flux_def truediv_def
      math_pi_def fsub_def default_args_def Let_def rnd_facts)

lemma ring_default_2:
  "ring (default_args) 2 =
  Inr
  \<lparr>Rin = Fin (8430738502437567 / 288230376151711744), Rout = Fin (4863887597560135 / 144115188075855872), Aout = Fin (4125695456982985 / 1152921504606846976), Ain = Fin (3098855698800553 / 1152921504606846976),
        Aring = Fin (32088742443201 / 36028797018963968), I = Fin (5461105846878723 / 18014398509481984),
        Fout = Fin (5002855814633281 / 4611686018427387904), Finn = Fin (7515401179315773 / 9223372036854775808)\<rparr>"
  by (simp add: ring_def radii_def Rc_def float_of_nat_def resolved_ring_flux_def truediv_def
      math_pi_def fsub_def default_args_def Let_def rnd_facts)

lemma ring_precedence_0:
  "ring (default_args\<lparr>ring_flux := Some (Fin (5764607523034235 / 1152921504606846976))\<rparr>) 0 =
  Inr
  \<lparr>Rin = Fin (5188146770730811 / 2305843009213693952), Rout = Fin (972777519512027 / 144115188075855872), Aout = Fin (5280890184938221 / 36893488147419103232), Ain = Fin (4694124608833975 / 295147905179352825856),
        Aring = Fin (2347062304416987 / 18446744073709551616), I = Fin (5530633814836671 / 140737488355328),
        Fout = Fin (3242591731706757 / 576460752303423488), Finn = Fin (1441151880758559 / 2305843009213693952)\<rparr>"
  by (simp add: ring_def radii_def Rc_def float_of_nat_def resolved_ring_flux_def truediv_def
      math_pi_def fsub_def default_args_def Let_def rnd_facts)

lemma ring_precedence_1:
  "ring (default_args\<lparr>ring_flux := Some (Fin (5764607523034235 / 1152921504606846976))\<rparr>) (Suc 0) =
  Inr
  \<lparr>Rin = Fin (4539628424389459 / 288230376151711744), Rout = Fin (2918332558536081 / 144115188075855872), Aout = Fin (5941001458055499 / 4611686018427387904), Ain = Fin (3593939153638511 / 4611686018427387904),
        Aring = Fin (586765576104247 / 1152921504606846976), I = Fin (5530633814836669 / 562949953421312),
        Fout = Fin (3647915698170101 / 288230376151711744), Finn = Fin (1103381908705771 / 144115188075855872)\<rparr>"
  by (simp add: ring_def radii_def Rc_def float_of_nat_def resolved_ring_flux_def truediv_def
      math_pi_def fsub_def default_args_def Let_def rnd_facts)

lemma ring_precedence_2:
  "ring (default_args\<lparr>ring_flux := Some (Fin (5764607523034235 / 1152921504606846976))\<rparr>) 2 =
  Inr
  \<lparr>Rin = Fin (8430738502437567 / 288230376151711744), Rout = Fin (4863887597560135 / 144115188075855872), Aout = Fin (4125695456982985 / 1152921504606846976), Ain = Fin (3098855698800553 / 1152921504606846976),
        Aring = Fin (32088742443201 / 36028797018963968), I = Fin (6320724359813337 / 1125899906842624),
        Fout = Fin (5790342378047779 / 288230376151711744), Finn = Fin (8698380994578441 / 576460752303423488)\<rparr>"
  by (simp add: ring_def radii_def Rc_def float_of_nat_def resolved_ring_flux_def truediv_def
      math_pi_def fsub_def default_args_def Let_def rnd_facts)

lemma ring_precedence_sb_0:
  "ring (default_args\<lparr>ring_flux := Some (Fin (5764607523034235 / 1152921504606846976)), ring_surface_brightness := Some (Fin 1)\<rparr>) 0 =
  Inr
  \<lparr>Rin = Fin (5188146770730811 / 2305843009213693952), Rout = Fin (972777519512027 / 144115188075855872), Aout = Fin (5280890184938221 / 36893488147419103232), Ain = Fin (4694124608833975 / 295147905179352825856),
        Aring = Fin (2347062304416987 / 18446744073709551616), I = Fin (1),
        Fout = Fin (5280890184938221 / 36893488147419103232), Finn = Fin (4694124608833975 / 295147905179352825856)\<rparr>"
  by (simp add: ring_def radii_def Rc_def float_of_nat_def resolved_ring_flux_def truediv_def
      math_pi_def fsub_def default_args_def Let_def rnd_facts)

lemma ring_precedence_sb_1:
  "ring (default_args\<lparr>ring_flux := Some (Fin (5764607523034235 / 1152921504606846976)), ring_surface_brightness := Some (Fin 1)\<rparr>) (Suc 0) =
  Inr
  \<lparr>Rin = Fin (4539628424389459 / 288230376151711744), Rout = Fin (2918332558536081 / 144115188075855872), Aout = Fin (5941001458055499 / 4611686018427387904), Ain = Fin (3593939153638511 / 4611686018427387904),
        Aring = Fin (586765576104247 / 1152921504606846976), I = Fin (1),
        Fout = Fin (5941001458055499 / 4611686018427387904), Finn = Fin (3593939153638511 / 4611686018427387904)\<rparr>"
  by (simp add: ring_def radii_def Rc_def float_of_nat_def resolved_ring_flux_def truediv_def
      math_pi_def fsub_def default_args_def Let_def rnd_facts)

lemma ring_precedence_sb_2:
  "ring (default_args\<lparr>ring_flux := Some (Fin (5764607523034235 / 1152921504606846976)), ring_surface_brightness := Some (Fin 1)\<rparr>) 2 =
  Inr
  \<lparr>Rin = Fin (8430738502437567 / 288230376151711744), Rout = Fin (4863887597560135 / 144115188075855872), Aout = Fin (4125695456982985 / 1152921504606846976), Ain = Fin (3098855698800553 / 1152921504606846976),
        Aring = Fin (32088742443201 / 36028797018963968), I = Fin (1),
        Fout = Fin (4125695456982985 / 1152921504606846976), Finn = Fin (3098855698800553 / 1152921504606846976)\<rparr>"
  by (simp add: ring_def radii_def Rc_def float_of_nat_def resolved_ring_flux_def truediv_def
      math_pi_def fsub_def default_args_def Let_def rnd_facts)

lemma ring_zero_thickness:
  "ring (default_args\<lparr>ring_thickness := Fin 0\<rparr>) 2 =
  Inl ZeroDivisionError"
  by (simp add: ring_def radii_def Rc_def float_of_nat_def resolved_ring_flux_def truediv_def
      math_pi_def fsub_def default_args_def Let_def rnd_facts)





lemma ring_absorbed:
  "ring (default_args\<lparr>central_diameter := Fin 1, ring_thickness := Fin (6490371073168535 / 649037107316853453566312041152512),
      ring_spacing := Fin 0\<rparr>) 0 =
  Inl ZeroDivisionError"
  by (simp add: ring_def radii_def Rc_def float_of_nat_def resolved_ring_flux_def truediv_def
      math_pi_def fsub_def default_args_def Let_def rnd_facts)

lemma ring_contiguous_2:
  "ring (default_args\<lparr>n_rings := 4, ring_spacing := Fin 0\<rparr>) 2 =
  Inr
  \<lparr>Rin = Fin (3242591731706757 / 288230376151711744), Rout = Fin (1134907106097365 / 72057594037927936), Aout = Fin (7187878307277025 / 9223372036854775808), Ain = Fin (3667284850651543 / 9223372036854775808),
        Aring = Fin (1760296728312741 / 4611686018427387904), I = Fin (3185645077345921 / 4503599627370496),
        Fout = Fin (2542191917658097 / 4611686018427387904), Finn = Fin (2594073385365405 / 9223372036854775808)\<rparr>"
  by (simp add: ring_def radii_def Rc_def float_of_nat_def resolved_ring_flux_def truediv_def
      math_pi_def fsub_def default_args_def Let_def rnd_facts)

lemma ring_contiguous_3:
  "ring (default_args\<lparr>n_rings := 4, ring_spacing := Fin 0\<rparr>) 3 =
  Inr
  \<lparr>Rin = Fin (4539628424389459 / 288230376151711744), Rout = Fin (2918332558536081 / 144115188075855872), Aout = Fin (5941001458055499 / 4611686018427387904), Ain = Fin (3593939153638511 / 4611686018427387904),
        Aring = Fin (586765576104247 / 1152921504606846976), I = Fin (2389233808009441 / 4503599627370496),
        Fout = Fin (3151799163218967 / 4611686018427387904), Finn = Fin (7626575752974289 / 18446744073709551616)\<rparr>"
  by (simp add: ring_def radii_def Rc_def float_of_nat_def resolved_ring_flux_def truediv_def
      math_pi_def fsub_def default_args_def Let_def rnd_facts)

lemma ring_flat_0:
  "ring (default_args\<lparr>central_diameter := Fin 3600, ring_thickness := Fin (5902958103587057 / 590295810358705651712),
      ring_spacing := Fin (5902958103587057 / 590295810358705651712)\<rparr>) 0 =
  Inr
  \<lparr>Rin = Fin (1800), Rout = Fin (7916483763967665 / 4398046511104), Aout = Fin (5464680331050087 / 536870912), Ain = Fin (5464680270331417 / 536870912),
        Aring = Fin (30359335 / 268435456), I = Fin (5504794663767383 / 2305843009213693952),
        Fout = Fin (6679533176692031 / 274877906944), Finn = Fin (1669883275618749 / 68719476736)\<rparr>"
  by (simp add: ring_def radii_def Rc_def float_of_nat_def resolved_ring_flux_def truediv_def
      math_pi_def fsub_def default_args_def Let_def rnd_facts)

lemma ring_flat_1:
  "ring (default_args\<lparr>central_diameter := Fin 3600, ring_thickness := Fin (5902958103587057 / 590295810358705651712),
      ring_spacing := Fin (5902958103587057 / 590295810358705651712)\<rparr>) (Suc 0) =
  Inr
  \<lparr>Rin = Fin (3958241903974065 / 2199023255552), Rout = Fin (7916483851928595 / 4398046511104), Aout = Fin (5464680452487427 / 536870912), Ain = Fin (5464680391768757 / 536870912),
        Aring = Fin (30359335 / 268435456), I = Fin (5504794663767383 / 2305843009213693952),
        Fout = Fin (1669883331281525 / 68719476736), Finn = Fin (3339766625454533 / 137438953472)\<rparr>"
  by (simp add: ring_def radii_def Rc_def float_of_nat_def resolved_ring_flux_def truediv_def
      math_pi_def fsub_def default_args_def Let_def rnd_facts)

lemma ring_sb3_0:
  "ring (default_args\<lparr>ring_surface_brightness := Some (Fin 3)\<rparr>) 0 =
  Inr
  \<lparr>Rin = Fin (5188146770730811 / 2305843009213693952), Rout = Fin (972777519512027 / 144115188075855872), Aout = Fin (5280890184938221 / 36893488147419103232), Ain = Fin (4694124608833975 / 295147905179352825856),
        Aring = Fin (2347062304416987 / 18446744073709551616), I = Fin (3),
        Fout = Fin (1980333819351833 / 4611686018427387904), Finn = Fin (3520593456625481 / 73786976294838206464)\<rparr>"
  by (simp add: ring_def radii_def Rc_def float_of_nat_def resolved_ring_flux_def truediv_def
      math_pi_def fsub_def default_args_def Let_def rnd_facts)

lemma ring_sb3_1:
  "ring (default_args\<lparr>ring_surface_brightness := Some (Fin 3)\<rparr>) (Suc 0) =
  Inr
  \<lparr>Rin = Fin (4539628424389459 / 288230376151711744), Rout = Fin (2918332558536081 / 144115188075855872), Aout = Fin (5941001458055499 / 4611686018427387904), Ain = Fin (3593939153638511 / 4611686018427387904),
        Aring = Fin (586765576104247 / 1152921504606846976), I = Fin (3),
        Fout = Fin (556968886692703 / 144115188075855872), Finn = Fin (2695454365228883 / 1152921504606846976)\<rparr>"
  by (simp add: ring_def radii_def Rc_def float_of_nat_def resolved_ring_flux_def truediv_def
      math_pi_def fsub_def default_args_def Let_def rnd_facts)

lemma ring_sb3_2:
  "ring (default_args\<lparr>ring_surface_brightness := Some (Fin 3)\<rparr>) 2 =
  Inr
  \<lparr>Rin = Fin (8430738502437567 / 288230376151711744), Rout = Fin (4863887597560135 / 144115188075855872), Aout = Fin (4125695456982985 / 1152921504606846976), Ain = Fin (3098855698800553 / 1152921504606846976),
        Aring = Fin (32088742443201 / 36028797018963968), I = Fin (3),
        Fout = Fin (3094271592737239 / 288230376151711744), Finn = Fin (2324141774100415 / 288230376151711744)\<rparr>"
  by (simp add: ring_def radii_def Rc_def float_of_nat_def resolved_ring_flux_def truediv_def
      math_pi_def fsub_def default_args_def Let_def rnd_facts)



lemma radii_scenario:
  "radii (default_args\<lparr>n_rings := 1, ring_flux := Some (Fin (4980620899901579 / 18446744073709551616))\<rparr>) 0 = Inr (Fin (5188146770730811 / 2305843009213693952), Fin (972777519512027 / 144115188075855872))"
  by (simp add: radii_def Rc_def float_of_nat_def default_args_def Let_def rnd_facts)

lemma radii_contiguous_2:
  "radii (default_args\<lparr>n_rings := 4, ring_spacing := Fin 0\<rparr>) 2 = Inr (Fin (3242591731706757 / 288230376151711744), Fin (1134907106097365 / 72057594037927936))"
  by (simp add: radii_def Rc_def float_of_nat_def default_args_def Let_def rnd_facts)

lemma radii_contiguous_3:
  "radii (default_args\<lparr>n_rings := 4, ring_spacing := Fin 0\<rparr>) 3 = Inr (Fin (4539628424389459 / 288230376151711744), Fin (2918332558536081 / 144115188075855872))"
  by (simp add: radii_def Rc_def float_of_nat_def default_args_def Let_def rnd_facts)

lemma radii_absorbed:
  "radii (default_args\<lparr>central_diameter := Fin 1, ring_thickness := Fin (6490371073168535 / 649037107316853453566312041152512),
      ring_spacing := Fin 0\<rparr>) 0 = Inr (Fin (1 / 2), Fin (1 / 2))"
  by (simp add: radii_def Rc_def float_of_nat_def default_args_def Let_def rnd_facts)


lemma pow2_negative_area_outer:
  "pow2 (Fin (1)) = Inr (Fin (1))"
  by (simp add: rnd_facts)

lemma pow2_negative_area_inner:
  "pow2 (Fin (2)) = Inr (Fin (4))"
  by (simp add: rnd_facts)


lemma area_negative_outer:
  "fmul math_pi (Fin (1)) = Fin (884279719003555 / 281474976710656)"
  by (simp add: math_pi_def rnd_facts)

lemma area_negative_inner:
  "fmul math_pi (Fin (4)) = Fin (884279719003555 / 70368744177664)"
  by (simp add: math_pi_def rnd_facts)

lemma net_scenario:
  "fsub (Fin (5603198512389277 / 18446744073709551616)) (Fin (1245155224975395 / 36893488147419103232)) = Fin (1245155224975395 / 4611686018427387904)"
  by (simp add: fsub_def rnd_facts)

lemma net_default_0:
  "fsub (Fin (5603198512389277 / 18446744073709551616)) (Fin (1245155224975395 / 36893488147419103232)) = Fin (1245155224975395 / 4611686018427387904)"
  by (simp add: fsub_def rnd_facts)

lemma net_precedence_0:
  "fsub (Fin (3242591731706757 / 576460752303423488)) (Fin (1441151880758559 / 2305843009213693952)) = Fin (2882303761517117 / 576460752303423488)"
  by (simp add: fsub_def rnd_facts)

lemma net_sb3_0:
  "fsub (Fin (1980333819351833 / 4611686018427387904)) (Fin (3520593456625481 / 73786976294838206464)) = Fin (3520593456625481 / 9223372036854775808)"
  by (simp add: fsub_def rnd_facts)

lemma quotient_sb3_0:
  "truediv (Fin (3520593456625481 / 9223372036854775808)) (Fin (2347062304416987 / 18446744073709551616)) = Inr (Fin (6755399441055745 / 2251799813685248))"
  by (simp add: truediv_def rnd_facts)

lemma net_default_1:
  "fsub (Fin (3151799163218967 / 4611686018427387904)) (Fin (7626575752974289 / 18446744073709551616)) = Fin (4980620899901579 / 18446744073709551616)"
  by (simp add: fsub_def rnd_facts)

lemma net_precedence_1:
  "fsub (Fin (3647915698170101 / 288230376151711744)) (Fin (1103381908705771 / 144115188075855872)) = Fin (1441151880758559 / 288230376151711744)"
  by (simp add: fsub_def rnd_facts)

lemma net_sb3_1:
  "fsub (Fin (556968886692703 / 144115188075855872)) (Fin (2695454365228883 / 1152921504606846976)) = Fin (1760296728312741 / 1152921504606846976)"
  by (simp add: fsub_def rnd_facts)

lemma quotient_sb3_1:
  "truediv (Fin (1760296728312741 / 1152921504606846976)) (Fin (586765576104247 / 1152921504606846976)) = Inr (Fin (3))"
  by (simp add: truediv_def rnd_facts)

lemma net_default_2:
  "fsub (Fin (5002855814633281 / 4611686018427387904)) (Fin (7515401179315773 / 9223372036854775808)) = Fin (2490310449950789 / 9223372036854775808)"
  by (simp add: fsub_def rnd_facts)

lemma net_precedence_2:
  "fsub (Fin (5790342378047779 / 288230376151711744)) (Fin (8698380994578441 / 576460752303423488)) = Fin (2882303761517117 / 576460752303423488)"
  by (simp add: fsub_def rnd_facts)

lemma net_sb3_2:
  "fsub (Fin (3094271592737239 / 288230376151711744)) (Fin (2324141774100415 / 288230376151711744)) = Fin (96266227329603 / 36028797018963968)"
  by (simp add: fsub_def rnd_facts)

lemma quotient_sb3_2:
  "truediv (Fin (96266227329603 / 36028797018963968)) (Fin (32088742443201 / 36028797018963968)) = Inr (Fin (3))"
  by (simp add: truediv_def rnd_facts)

lemma diameter_scenario_outer:
  "fmul (Fin 2) (Fin (972777519512027 / 144115188075855872)) = Fin (972777519512027 / 72057594037927936)"
  by (simp add:  rnd_facts)

lemma diameter_scenario_inner:
  "fmul (Fin 2) (Fin (5188146770730811 / 2305843009213693952)) = Fin (5188146770730811 / 1152921504606846976)"
  by (simp add:  rnd_facts)

lemma area_scenario:
  "fsub (Fin (5280890184938221 / 36893488147419103232)) (Fin (4694124608833975 / 295147905179352825856)) = Fin (2347062304416987 / 18446744073709551616)"
  by (simp add: fsub_def rnd_facts)

lemma area_negative:
  "fsub (Fin (884279719003555 / 281474976710656)) (Fin (884279719003555 / 70368744177664)) = Fin (- (2652839157010665 / 281474976710656))"
  by (simp add: fsub_def rnd_facts)

subsection \<open>The component list\<close>

lemma length_add_disk [simp]: "length (add_disk cl d x f fr) = Suc (length cl)"
  by (simp add: add_disk_def)

lemma rings_loop_shape:
  "rings_loop a center_dir js cl = Inr cl' \<Longrightarrow>
   length cl' = length cl + 2 * length js
   \<and> take (length cl) cl' = cl
   \<and> (\<forall>i<length js. \<exists>r. ring a (js ! i) = Inr r
          \<and> cl' ! (length cl + 2 * i) =
              disk center_dir (fmul (Fin 2) (Rout r)) (Fout r) (args.freq a)
          \<and> cl' ! (length cl + 2 * i + 1) =
              disk center_dir (fmul (Fin 2) (Rin r)) (fneg (Finn r)) (args.freq a))"
proof (induction js arbitrary: cl)
  case Nil
  then show ?case by simp
next
  case (Cons j js)
  from Cons.prems obtain r where r: "ring a j = Inr r"
    by (cases "ring a j") simp_all
  define outer where "outer = disk center_dir (fmul (Fin 2) (Rout r)) (Fout r) (args.freq a)"
  define inner where "inner = disk center_dir (fmul (Fin 2) (Rin r)) (fneg (Finn r)) (args.freq a)"
  define cl2 where "cl2 = cl @ [outer, inner]"
  from Cons.prems r have run: "rings_loop a center_dir js cl2 = Inr cl'"
    by (simp add: add_disk_def cl2_def outer_def inner_def)
  note IH = Cons.IH[OF run]
  have len2: "length cl2 = length cl + 2" by (simp add: cl2_def)
  from IH have len: "length cl' = length cl + 2 * length (j # js)" by (simp add: len2)
  from IH have pre2: "take (length cl2) cl' = cl2" by simp
  have pre: "take (length cl) cl' = cl"
  proof -
    have "take (length cl) cl' = take (length cl) (take (length cl2) cl')"
      by (simp add: len2 min_def)
    also have "\<dots> = cl" by (simp add: pre2) (simp add: cl2_def)
    finally show ?thesis .
  qed
  have at2: "cl' ! n = cl2 ! n" if "n < length cl2" for n
  proof -
    have "cl2 ! n = take (length cl2) cl' ! n" by (simp add: pre2)
    also have "\<dots> = cl' ! n" using that by simp
    finally show ?thesis by simp
  qed
  have el: "\<exists>r. ring a ((j # js) ! i) = Inr r
          \<and> cl' ! (length cl + 2 * i) =
              disk center_dir (fmul (Fin 2) (Rout r)) (Fout r) (args.freq a)
          \<and> cl' ! (length cl + 2 * i + 1) =
              disk center_dir (fmul (Fin 2) (Rin r)) (fneg (Finn r)) (args.freq a)"
    if i: "i < length (j # js)" for i
  proof (cases i)
    case 0
    have "cl' ! (length cl) = outer" using at2[of "length cl"] by (simp add: len2 cl2_def)
    moreover have "cl' ! (length cl + 1) = inner"
      using at2[of "length cl + 1"] by (simp add: len2 cl2_def nth_append)
    ultimately show ?thesis using r 0 by (simp add: outer_def inner_def)
  next
    case (Suc m)
    with i have m: "m < length js" by simp
    from IH m obtain r' where r': "ring a (js ! m) = Inr r'"
      "cl' ! (length cl2 + 2 * m) =
         disk center_dir (fmul (Fin 2) (Rout r')) (Fout r') (args.freq a)"
      "cl' ! (length cl2 + 2 * m + 1) =
         disk center_dir (fmul (Fin 2) (Rin r')) (fneg (Finn r')) (args.freq a)"
      by blast
    have e1: "length cl + 2 * i = length cl2 + 2 * m" by (simp add: len2 Suc)
    have e2: "length cl + 2 * i + 1 = length cl2 + 2 * m + 1" by (simp add: len2 Suc)
    show ?thesis unfolding e1 e2 using r' by (simp add: Suc)
  qed
  from len pre el show ?case by blast
qed

lemma rings_loop_all:
  "rings_loop a center_dir js cl = Inr cl' \<Longrightarrow>
   (\<And>d f. P (disk center_dir d f (args.freq a))) \<Longrightarrow> (\<And>c. c \<in> set cl \<Longrightarrow> P c) \<Longrightarrow>
   c \<in> set cl' \<Longrightarrow> P c"
proof (induction js arbitrary: cl)
  case Nil
  then show ?case by simp
next
  case (Cons j js)
  from Cons.prems(1) obtain r where r: "ring a j = Inr r"
    by (cases "ring a j") simp_all
  let ?cl2 = "add_disk (add_disk cl center_dir (fmul (Fin 2) (Rout r)) (Fout r) (args.freq a))
               center_dir (fmul (Fin 2) (Rin r)) (fneg (Finn r)) (args.freq a)"
  from Cons.prems(1) r have run: "rings_loop a center_dir js ?cl2 = Inr cl'" by simp
  have "P c'" if "c' \<in> set ?cl2" for c'
    using that Cons.prems(2,3) by (auto simp: add_disk_def)
  from Cons.IH[OF run Cons.prems(2) this Cons.prems(4)] show ?case .
qed

lemma rings_loop_returns:
  "(\<And>j. j \<in> set js \<Longrightarrow> \<exists>r. ring a j = Inr r) \<Longrightarrow>
   \<exists>cl'. rings_loop a center_dir js cl = Inr cl'"
proof (induction js arbitrary: cl)
  case Nil
  show ?case by simp
next
  case (Cons j js)
  from Cons.prems[of j] obtain r where r: "ring a j = Inr r" by auto
  have "\<exists>cl'. rings_loop a center_dir js cl2 = Inr cl'" for cl2
    by (rule Cons.IH) (simp add: Cons.prems)
  then show ?case by (simp add: r)
qed


text \<open>
  C7. When the number of rings N is not negative and the run returns its component list,
  the list has 1 + 2 N entries. The first is the central disk: a Disk in Jy whose two
  axes are the central diameter in arcsec and whose flux is the central flux when it is
  given and the default flux otherwise. Then, for j = 0, 1, ..., N - 1 in this order, at
  position 1 + 2 j stands the outer disk of ring j, whose two axes are the float product
  2.0 * Rout in arcsec and whose flux is Fout, and at position 2 + 2 j its inner disk,
  whose two axes are 2.0 * Rin in arcsec and whose flux is - Finn. Every entry has the
  same centre direction, the frequency of the configuration and the position angle 0deg.
\<close>

theorem component_list_shape:
  assumes "0 \<le> args.n_rings a" and "main_components a center_dir = Inr cl"
  shows "int (length cl) = 1 + 2 * args.n_rings a
         \<and> cl ! 0 = \<lparr>dir = center_dir,
                      flux = (case args.central_flux a of Some f \<Rightarrow> f | None \<Rightarrow> args.flux a),
                      fluxunit = ''Jy'', freq = args.freq a, shape = ''Disk'',
                      majoraxis = (args.central_diameter a, ''arcsec''),
                      minoraxis = (args.central_diameter a, ''arcsec''),
                      positionangle = ''0deg''\<rparr>
         \<and> (\<forall>j. int j < args.n_rings a \<longrightarrow>
               (\<exists>r. ring a j = Inr r
                  \<and> cl ! (1 + 2 * j) =
                      \<lparr>dir = center_dir, flux = Fout r, fluxunit = ''Jy'', freq = args.freq a,
                       shape = ''Disk'', majoraxis = (fmul (Fin 2) (Rout r), ''arcsec''),
                       minoraxis = (fmul (Fin 2) (Rout r), ''arcsec''),
                       positionangle = ''0deg''\<rparr>
                  \<and> cl ! (2 + 2 * j) =
                      \<lparr>dir = center_dir, flux = fneg (Finn r), fluxunit = ''Jy'',
                       freq = args.freq a, shape = ''Disk'',
                       majoraxis = (fmul (Fin 2) (Rin r), ''arcsec''),
                       minoraxis = (fmul (Fin 2) (Rin r), ''arcsec''),
                       positionangle = ''0deg''\<rparr>))
         \<and> (\<forall>c \<in> set cl. dir c = center_dir \<and> component.freq c = args.freq a
               \<and> positionangle c = ''0deg'')"
proof -
  let ?c0 = "disk center_dir (args.central_diameter a) (resolved_central_flux a) (args.freq a)"
  let ?N = "nat (args.n_rings a)"
  from assms(2) have run: "rings_loop a center_dir [0..<?N] [?c0] = Inr cl"
    by (simp add: main_components_def add_disk_def)
  note sh = rings_loop_shape[OF run]
  from sh have "length cl = 1 + 2 * ?N" by simp
  with assms(1) have 1: "int (length cl) = 1 + 2 * args.n_rings a" by simp
  from sh have "take 1 cl = [?c0]" by simp
  then have "cl ! 0 = ?c0" by (metis nth_take less_numeral_extra(1) nth_Cons_0)
  then have 2: "cl ! 0 = \<lparr>dir = center_dir,
                      flux = (case args.central_flux a of Some f \<Rightarrow> f | None \<Rightarrow> args.flux a),
                      fluxunit = ''Jy'', freq = args.freq a, shape = ''Disk'',
                      majoraxis = (args.central_diameter a, ''arcsec''),
                      minoraxis = (args.central_diameter a, ''arcsec''),
                      positionangle = ''0deg''\<rparr>"
    by (simp add: resolved_central_flux_def disk_def Let_def)
  have 3: "\<exists>r. ring a j = Inr r
                  \<and> cl ! (1 + 2 * j) =
                      \<lparr>dir = center_dir, flux = Fout r, fluxunit = ''Jy'', freq = args.freq a,
                       shape = ''Disk'', majoraxis = (fmul (Fin 2) (Rout r), ''arcsec''),
                       minoraxis = (fmul (Fin 2) (Rout r), ''arcsec''),
                       positionangle = ''0deg''\<rparr>
                  \<and> cl ! (2 + 2 * j) =
                      \<lparr>dir = center_dir, flux = fneg (Finn r), fluxunit = ''Jy'',
                       freq = args.freq a, shape = ''Disk'',
                       majoraxis = (fmul (Fin 2) (Rin r), ''arcsec''),
                       minoraxis = (fmul (Fin 2) (Rin r), ''arcsec''),
                       positionangle = ''0deg''\<rparr>"
    if "int j < args.n_rings a" for j
  proof -
    from that have j: "j < length [0..<?N]" by simp
    from sh j obtain r where r: "ring a ([0..<?N] ! j) = Inr r"
      "cl ! (length [?c0] + 2 * j) =
         disk center_dir (fmul (Fin 2) (Rout r)) (Fout r) (args.freq a)"
      "cl ! (length [?c0] + 2 * j + 1) =
         disk center_dir (fmul (Fin 2) (Rin r)) (fneg (Finn r)) (args.freq a)"
      by blast
    from j have jj: "[0..<?N] ! j = j" by simp
    have i1: "length [?c0] + 2 * j = 1 + 2 * j" by simp
    have i2: "length [?c0] + 2 * j + 1 = 2 + 2 * j" by simp
    from r show ?thesis unfolding jj i1 i2 by (simp add: disk_def Let_def)
  qed
  have 4: "dir c = center_dir \<and> component.freq c = args.freq a \<and> positionangle c = ''0deg''"
    if "c \<in> set cl" for c
    by (rule rings_loop_all[OF run _ _ that]) (simp_all add: disk_def Let_def)
  from 1 2 3 4 show ?thesis by blast
qed


lemma main_scenario:
  "main_components (default_args\<lparr>n_rings := 1, ring_flux := Some (rnd (27 / 100000))\<rparr>) ''J2000'' =
     Inr [disk ''J2000'' (rnd (45 / 10 ^ 4)) (rnd (27 / 10 ^ 5)) ''343.5GHz'',
          disk ''J2000'' (rnd (13499999999999998 / 10 ^ 18)) (rnd (30375000000000004 / 10 ^ 20)) ''343.5GHz'',
          disk ''J2000'' (rnd (45 / 10 ^ 4)) (rnd (- (3375000000000001 / 10 ^ 20))) ''343.5GHz'']"
  by (simp add: main_components_def ring_scenario add_disk_def resolved_central_flux_def
      rnd_facts) (simp add: default_args_def rnd_facts)

theorem component_list_shape_witness:
  "0 \<le> args.n_rings (default_args\<lparr>n_rings := 1, ring_flux := Some (rnd (27 / 100000))\<rparr>)
   \<and> (\<exists>cl. main_components (default_args\<lparr>n_rings := 1, ring_flux := Some (rnd (27 / 100000))\<rparr>) ''J2000'' = Inr cl
         \<and> int (length cl) = 3
         \<and> majoraxis (cl ! 0) = (rnd (45 / 10 ^ 4), ''arcsec'')
         \<and> component.flux (cl ! 0) = rnd (27 / 10 ^ 5)
         \<and> majoraxis (cl ! 1) = (rnd (13499999999999998 / 10 ^ 18), ''arcsec'')
         \<and> component.flux (cl ! 1) = rnd (30375000000000004 / 10 ^ 20)
         \<and> minoraxis (cl ! 2) = (rnd (45 / 10 ^ 4), ''arcsec'')
         \<and> component.flux (cl ! 2) = rnd (- (3375000000000001 / 10 ^ 20))
         \<and> shape (cl ! 2) = ''Disk'' \<and> dir (cl ! 2) = ''J2000'')"
proof -
  let ?a = "default_args\<lparr>n_rings := 1, ring_flux := Some (rnd (27 / 100000))\<rparr>"
  have h1: "0 \<le> args.n_rings ?a" by simp
  obtain cl where h2: "main_components ?a ''J2000'' = Inr cl" using main_scenario by blast
  note t = component_list_shape[OF h1 h2]
  from t have len: "int (length cl) = 3" by simp
  from t have c0: "cl ! 0 = \<lparr>dir = ''J2000'',
        flux = (case args.central_flux ?a of Some f \<Rightarrow> f | None \<Rightarrow> args.flux ?a),
        fluxunit = ''Jy'', freq = args.freq ?a, shape = ''Disk'',
        majoraxis = (args.central_diameter ?a, ''arcsec''),
        minoraxis = (args.central_diameter ?a, ''arcsec''), positionangle = ''0deg''\<rparr>"
    by blast
  from t have "int 0 < args.n_rings ?a \<longrightarrow>
     (\<exists>r. ring ?a 0 = Inr r
        \<and> cl ! (1 + 2 * 0) =
            \<lparr>dir = ''J2000'', flux = Fout r, fluxunit = ''Jy'', freq = args.freq ?a,
             shape = ''Disk'', majoraxis = (fmul (Fin 2) (Rout r), ''arcsec''),
             minoraxis = (fmul (Fin 2) (Rout r), ''arcsec''), positionangle = ''0deg''\<rparr>
        \<and> cl ! (2 + 2 * 0) =
            \<lparr>dir = ''J2000'', flux = fneg (Finn r), fluxunit = ''Jy'', freq = args.freq ?a,
             shape = ''Disk'', majoraxis = (fmul (Fin 2) (Rin r), ''arcsec''),
             minoraxis = (fmul (Fin 2) (Rin r), ''arcsec''), positionangle = ''0deg''\<rparr>)"
    by blast
  then obtain r where r: "ring ?a 0 = Inr r"
    and c1: "cl ! 1 = \<lparr>dir = ''J2000'', flux = Fout r, fluxunit = ''Jy'', freq = args.freq ?a,
             shape = ''Disk'', majoraxis = (fmul (Fin 2) (Rout r), ''arcsec''),
             minoraxis = (fmul (Fin 2) (Rout r), ''arcsec''), positionangle = ''0deg''\<rparr>"
    and c2: "cl ! 2 = \<lparr>dir = ''J2000'', flux = fneg (Finn r), fluxunit = ''Jy'', freq = args.freq ?a,
             shape = ''Disk'', majoraxis = (fmul (Fin 2) (Rin r), ''arcsec''),
             minoraxis = (fmul (Fin 2) (Rin r), ''arcsec''), positionangle = ''0deg''\<rparr>"
    by auto
  from r have rv: "Rout r = rnd (6749999999999999 / 10 ^ 18)" "Rin r = rnd (225 / 10 ^ 5)" "Fout r = rnd (30375000000000004 / 10 ^ 20)"
      "Finn r = rnd (3375000000000001 / 10 ^ 20)"
    by (auto simp add: ring_scenario rnd_facts)
  have w0: "majoraxis (cl ! 0) = (rnd (45 / 10 ^ 4), ''arcsec'')"
      "component.flux (cl ! 0) = rnd (27 / 10 ^ 5)"
    using c0 by (simp_all add: default_args_def rnd_facts)
  have w1: "majoraxis (cl ! 1) = (rnd (13499999999999998 / 10 ^ 18), ''arcsec'')"
      "component.flux (cl ! 1) = rnd (30375000000000004 / 10 ^ 20)"
    using c1 rv by (simp_all add: rnd_facts)
  have w2: "minoraxis (cl ! 2) = (rnd (45 / 10 ^ 4), ''arcsec'')"
      "component.flux (cl ! 2) = rnd (- (3375000000000001 / 10 ^ 20))"
      "shape (cl ! 2) = ''Disk''" "dir (cl ! 2) = ''J2000''"
    using c2 rv by (simp_all add: rnd_facts)
  from h1 h2 len w0 w1 w2 show ?thesis by blast
qed

subsection \<open>The scenario of one ring\<close>

text \<open>
  Where the claim C3 fails. With central diameter 0.0045, thickness 0.0045 and spacing
  0.009, the radii of ring 0 are the floats 0.00225 and 0.006749999999999999: the outer
  radius is not the float 0.0045.
\<close>

theorem scenario_counterexample:
  "radii (default_args\<lparr>n_rings := 1, ring_flux := Some (rnd (27 / 100000))\<rparr>) 0 = Inr (rnd (225 / 10 ^ 5), rnd (6749999999999999 / 10 ^ 18))
   \<and> rnd (6749999999999999 / 10 ^ 18) \<noteq> rnd (45 / 10 ^ 4)"
  by (simp add: radii_scenario rnd_facts)

text \<open>
  C3, as the code has it. For central diameter 0.0045, thickness 0.0045, spacing 0.009,
  one ring and ring flux 2.7e-4 in total-flux mode ring 0 is computed: its inner radius
  is the float 0.00225, its outer radius is about 0.00675 (within 1e-17), its annulus
  area, the float difference of the outer and the inner disk area, is about 1.27e-4
  (between 1.272e-4 and 1.273e-4), its surface brightness is about 2.12 (between 2.122
  and 2.123), its outer flux is about 3.04e-4 (within 1e-15 of 3.0375e-4), its inner
  flux is about 3.38e-5 (within 1e-15 of 3.375e-5), and the float difference of the two
  fluxes is about 2.70e-4 (within 1e-15 of 2.7e-4). The floats themselves are
  0.006749999999999999, 0.00012723450247038658, 2.1220659078919386,
  0.00030375000000000004, 3.375000000000001e-05 and 0.00027000000000000006.
\<close>

theorem scenario_values:
  "\<exists>r ro ar i fo fi n.
     ring (default_args\<lparr>n_rings := 1, ring_flux := Some (rnd (27 / 100000))\<rparr>) 0 = Inr r
     \<and> Rin r = rnd (225 / 10 ^ 5)
     \<and> Rout r = rnd (6749999999999999 / 10 ^ 18) \<and> Rout r = Fin ro \<and> \<bar>ro - 675 / 10 ^ 5\<bar> < 1 / 10 ^ 17
     \<and> Aring r = fsub (Aout r) (Ain r)
     \<and> Aring r = rnd (12723450247038658 / 10 ^ 20) \<and> Aring r = Fin ar
     \<and> 1272 / 10 ^ 7 < ar \<and> ar < 1273 / 10 ^ 7
     \<and> I r = rnd (21220659078919386 / 10 ^ 16) \<and> I r = Fin i \<and> 2122 / 10 ^ 3 < i \<and> i < 2123 / 10 ^ 3
     \<and> Fout r = rnd (30375000000000004 / 10 ^ 20) \<and> Fout r = Fin fo \<and> \<bar>fo - 30375 / 10 ^ 8\<bar> < 1 / 10 ^ 15
     \<and> Finn r = rnd (3375000000000001 / 10 ^ 20) \<and> Finn r = Fin fi \<and> \<bar>fi - 3375 / 10 ^ 8\<bar> < 1 / 10 ^ 15
     \<and> fsub (Fout r) (Finn r) = rnd (27000000000000006 / 10 ^ 20)
     \<and> fsub (Fout r) (Finn r) = Fin n \<and> \<bar>n - 27 / 10 ^ 5\<bar> < 1 / 10 ^ 15"
  apply (rule exI[of _ "\<lparr>Rin = Fin (5188146770730811 / 2305843009213693952), Rout = Fin (972777519512027 / 144115188075855872), Aout = Fin (5280890184938221 / 36893488147419103232), Ain = Fin (4694124608833975 / 295147905179352825856),
        Aring = Fin (2347062304416987 / 18446744073709551616), I = Fin (1194616904004721 / 562949953421312),
        Fout = Fin (5603198512389277 / 18446744073709551616), Finn = Fin (1245155224975395 / 36893488147419103232)\<rparr>"])
  apply (rule exI[of _ "972777519512027 / 144115188075855872"])
  apply (rule exI[of _ "2347062304416987 / 18446744073709551616"])
  apply (rule exI[of _ "1194616904004721 / 562949953421312"])
  apply (rule exI[of _ "5603198512389277 / 18446744073709551616"])
  apply (rule exI[of _ "1245155224975395 / 36893488147419103232"])
  apply (rule exI[of _ "1245155224975395 / 4611686018427387904"])
  apply (simp add: ring_scenario net_scenario area_scenario rnd_facts)
  done


subsection \<open>Which flux is used\<close>

lemma radii_ignore_fluxes:
  "radii (a\<lparr>ring_flux := rf\<rparr>) j = radii a j"
  "radii (a\<lparr>args.flux := f\<rparr>) j = radii a j"
  by (simp_all add: radii_def Rc_def Let_def cong: sum.case_cong)

lemma ring_ignores_fluxes:
  "args.ring_surface_brightness a = Some sb \<Longrightarrow>
   ring (a\<lparr>ring_flux := rf, args.flux := f\<rparr>) j = ring a j"
  by (simp add: ring_def radii_ignore_fluxes Let_def cong: sum.case_cong prod.case_cong)

lemma ring_ignores_flux:
  "args.ring_flux a = Some F \<Longrightarrow> ring (a\<lparr>args.flux := f\<rparr>) j = ring a j"
  by (simp add: ring_def radii_ignore_fluxes resolved_ring_flux_def Let_def
      cong: sum.case_cong prod.case_cong option.case_cong)

lemma ring_surface_brightness_mode:
  assumes "args.ring_surface_brightness a = Some sb" and "ring a j = Inr r"
  shows "I r = sb" and "Fout r = fmul sb (Aout r)" and "Finn r = fmul sb (Ain r)"
    and "Aring r = fsub (Aout r) (Ain r)"
  using assms by (auto simp: ring_def Let_def split: sum.splits prod.splits)

lemma ring_total_flux_mode:
  assumes "args.ring_surface_brightness a = None" and "ring a j = Inr r"
  shows "truediv (resolved_ring_flux a) (Aring r) = Inr (I r)"
    and "Fout r = fmul (I r) (Aout r)" and "Finn r = fmul (I r) (Ain r)"
    and "Aring r = fsub (Aout r) (Ain r)"
  using assms by (auto simp: ring_def Let_def split: sum.splits prod.splits)

lemma rings_loop_cong:
  "(\<And>j. ring b j = ring a j) \<Longrightarrow> args.freq b = args.freq a \<Longrightarrow>
   rings_loop b center_dir js cl = rings_loop a center_dir js cl"
  by (induction js arbitrary: cl) (simp_all split: sum.splits)

lemma main_components_first:
  assumes "main_components a center_dir = Inr cl"
  shows "cl \<noteq> []"
    and "cl ! 0 = disk center_dir (args.central_diameter a) (resolved_central_flux a) (args.freq a)"
proof -
  let ?c0 = "disk center_dir (args.central_diameter a) (resolved_central_flux a) (args.freq a)"
  from assms have "rings_loop a center_dir [0..<nat (args.n_rings a)] [?c0] = Inr cl"
    by (simp add: main_components_def add_disk_def)
  from rings_loop_shape[OF this] have l: "length cl = 1 + 2 * nat (args.n_rings a)"
    and t: "take 1 cl = [?c0]" by simp_all
  from l show "cl \<noteq> []" by auto
  from t show "cl ! 0 = ?c0" by (metis nth_take less_numeral_extra(1) nth_Cons_0)
qed

text \<open>
  C4. The ring fluxes follow the precedence surface brightness, then ring flux, then
  default flux; the central disk follows central flux, then default flux.
  With a surface brightness given, the computation of ring j is the same whatever the
  ring flux and the default flux are, and a ring that is computed has that brightness and
  the fluxes brightness * Aout and brightness * Ain. With no surface brightness and a
  ring flux given, the computation is the same whatever the default flux is, and the
  brightness of a computed ring is the quotient ring flux / Aring of line 78; with neither
  given, it is the quotient default flux / Aring. The first entry of a returned list has
  the central flux when it is given and the default flux otherwise, and with a central
  flux and a ring flux given the whole run is the same whatever the default flux is.
  Concretely, with the defaults of the command line (default flux 2.7e-4) and ring flux
  5e-3, the three rings are computed with net fluxes, as floats, 0.004999999999999999,
  0.005000000000000001 and 0.004999999999999999: 5e-3 up to rounding, not 2.7e-4; with
  surface brightness 1.0 in addition, they are computed with brightness 1.0 and fluxes
  Aout and Ain.
\<close>

theorem flux_precedence:
  "(\<forall>sb. args.ring_surface_brightness a = Some sb \<longrightarrow>
       ring (a\<lparr>ring_flux := rf, args.flux := f\<rparr>) j = ring a j
       \<and> (\<forall>r. ring a j = Inr r \<longrightarrow>
             I r = sb \<and> Fout r = fmul sb (Aout r) \<and> Finn r = fmul sb (Ain r)))
   \<and> (\<forall>F. args.ring_surface_brightness a = None \<longrightarrow> args.ring_flux a = Some F \<longrightarrow>
       ring (a\<lparr>args.flux := f\<rparr>) j = ring a j
       \<and> (\<forall>r. ring a j = Inr r \<longrightarrow>
             truediv F (Aring r) = Inr (I r)
             \<and> Fout r = fmul (I r) (Aout r) \<and> Finn r = fmul (I r) (Ain r)))
   \<and> (args.ring_surface_brightness a = None \<longrightarrow> args.ring_flux a = None \<longrightarrow>
       (\<forall>r. ring a j = Inr r \<longrightarrow>
             truediv (args.flux a) (Aring r) = Inr (I r)
             \<and> Fout r = fmul (I r) (Aout r) \<and> Finn r = fmul (I r) (Ain r)))
   \<and> (\<forall>cl. main_components a center_dir = Inr cl \<longrightarrow>
       cl \<noteq> []
       \<and> component.flux (cl ! 0) =
           (case args.central_flux a of Some c \<Rightarrow> c | None \<Rightarrow> args.flux a))
   \<and> (\<forall>c F. args.central_flux a = Some c \<longrightarrow> args.ring_flux a = Some F \<longrightarrow>
       main_components (a\<lparr>args.flux := f\<rparr>) center_dir = main_components a center_dir)
   \<and> (\<exists>r0 r1 r2.
       ring (default_args\<lparr>ring_flux := Some (rnd (5 / 1000))\<rparr>) 0 = Inr r0
       \<and> ring (default_args\<lparr>ring_flux := Some (rnd (5 / 1000))\<rparr>) 1 = Inr r1
       \<and> ring (default_args\<lparr>ring_flux := Some (rnd (5 / 1000))\<rparr>) 2 = Inr r2
       \<and> fsub (Fout r0) (Finn r0) = rnd (4999999999999999 / 10 ^ 18)
       \<and> fsub (Fout r1) (Finn r1) = rnd (5000000000000001 / 10 ^ 18)
       \<and> fsub (Fout r2) (Finn r2) = rnd (4999999999999999 / 10 ^ 18))
   \<and> (\<exists>r0 r1 r2.
       ring (default_args\<lparr>ring_flux := Some (rnd (5 / 1000)), ring_surface_brightness := Some (Fin 1)\<rparr>) 0 = Inr r0
       \<and> ring (default_args\<lparr>ring_flux := Some (rnd (5 / 1000)), ring_surface_brightness := Some (Fin 1)\<rparr>) 1 = Inr r1
       \<and> ring (default_args\<lparr>ring_flux := Some (rnd (5 / 1000)), ring_surface_brightness := Some (Fin 1)\<rparr>) 2 = Inr r2
       \<and> I r0 = Fin 1 \<and> Fout r0 = Aout r0 \<and> Finn r0 = Ain r0
       \<and> I r1 = Fin 1 \<and> Fout r1 = Aout r1 \<and> Finn r1 = Ain r1
       \<and> I r2 = Fin 1 \<and> Fout r2 = Aout r2 \<and> Finn r2 = Ain r2)"
proof -
  have 1: "ring (a\<lparr>ring_flux := rf, args.flux := f\<rparr>) j = ring a j
       \<and> (\<forall>r. ring a j = Inr r \<longrightarrow>
             I r = sb \<and> Fout r = fmul sb (Aout r) \<and> Finn r = fmul sb (Ain r))"
    if "args.ring_surface_brightness a = Some sb" for sb
    using ring_ignores_fluxes[OF that] ring_surface_brightness_mode[OF that] by blast
  have 2: "ring (a\<lparr>args.flux := f\<rparr>) j = ring a j
       \<and> (\<forall>r. ring a j = Inr r \<longrightarrow>
             truediv F (Aring r) = Inr (I r)
             \<and> Fout r = fmul (I r) (Aout r) \<and> Finn r = fmul (I r) (Ain r))"
    if n: "args.ring_surface_brightness a = None" and s: "args.ring_flux a = Some F" for F
  proof -
    from s have "resolved_ring_flux a = F" by (simp add: resolved_ring_flux_def)
    with ring_ignores_flux[OF s] ring_total_flux_mode[OF n] show ?thesis by metis
  qed
  have 3: "\<forall>r. ring a j = Inr r \<longrightarrow>
             truediv (args.flux a) (Aring r) = Inr (I r)
             \<and> Fout r = fmul (I r) (Aout r) \<and> Finn r = fmul (I r) (Ain r)"
    if n: "args.ring_surface_brightness a = None" and s: "args.ring_flux a = None"
  proof -
    from s have "resolved_ring_flux a = args.flux a" by (simp add: resolved_ring_flux_def)
    with ring_total_flux_mode[OF n] show ?thesis by metis
  qed
  have 4: "cl \<noteq> [] \<and> component.flux (cl ! 0) =
           (case args.central_flux a of Some c \<Rightarrow> c | None \<Rightarrow> args.flux a)"
    if "main_components a center_dir = Inr cl" for cl
    using main_components_first[OF that]
    by (simp add: disk_def Let_def resolved_central_flux_def)
  have 5: "main_components (a\<lparr>args.flux := f\<rparr>) center_dir = main_components a center_dir"
    if c: "args.central_flux a = Some c" and s: "args.ring_flux a = Some F" for c F
  proof -
    have "rings_loop (a\<lparr>args.flux := f\<rparr>) center_dir js cl = rings_loop a center_dir js cl"
      for js cl
      by (rule rings_loop_cong) (simp_all add: ring_ignores_flux[OF s])
    then show ?thesis
      using c by (simp add: main_components_def resolved_central_flux_def)
  qed
  have 6: "\<exists>r0 r1 r2.
       ring (default_args\<lparr>ring_flux := Some (rnd (5 / 1000))\<rparr>) 0 = Inr r0
       \<and> ring (default_args\<lparr>ring_flux := Some (rnd (5 / 1000))\<rparr>) 1 = Inr r1
       \<and> ring (default_args\<lparr>ring_flux := Some (rnd (5 / 1000))\<rparr>) 2 = Inr r2
       \<and> fsub (Fout r0) (Finn r0) = rnd (4999999999999999 / 10 ^ 18)
       \<and> fsub (Fout r1) (Finn r1) = rnd (5000000000000001 / 10 ^ 18)
       \<and> fsub (Fout r2) (Finn r2) = rnd (4999999999999999 / 10 ^ 18)"
    by (simp add: ring_precedence_0 ring_precedence_1 ring_precedence_2
        net_precedence_0 net_precedence_1 net_precedence_2 rnd_facts)
  have 7: "\<exists>r0 r1 r2.
       ring (default_args\<lparr>ring_flux := Some (rnd (5 / 1000)), ring_surface_brightness := Some (Fin 1)\<rparr>) 0 = Inr r0
       \<and> ring (default_args\<lparr>ring_flux := Some (rnd (5 / 1000)), ring_surface_brightness := Some (Fin 1)\<rparr>) 1 = Inr r1
       \<and> ring (default_args\<lparr>ring_flux := Some (rnd (5 / 1000)), ring_surface_brightness := Some (Fin 1)\<rparr>) 2 = Inr r2
       \<and> I r0 = Fin 1 \<and> Fout r0 = Aout r0 \<and> Finn r0 = Ain r0
       \<and> I r1 = Fin 1 \<and> Fout r1 = Aout r1 \<and> Finn r1 = Ain r1
       \<and> I r2 = Fin 1 \<and> Fout r2 = Aout r2 \<and> Finn r2 = Ain r2"
    by (simp add: ring_precedence_sb_0 ring_precedence_sb_1 ring_precedence_sb_2 rnd_facts)
  from 1 2 3 4 5 6 7 show ?thesis by blast
qed


theorem flux_precedence_witness:
  "args.ring_surface_brightness (default_args\<lparr>ring_flux := Some (rnd (5 / 1000)), ring_surface_brightness := Some (Fin 1)\<rparr>) = Some (Fin 1)
   \<and> ring ((default_args\<lparr>ring_flux := Some (rnd (5 / 1000)), ring_surface_brightness := Some (Fin 1)\<rparr>)\<lparr>ring_flux := None, args.flux := Fin 0\<rparr>) 2
       = ring (default_args\<lparr>ring_flux := Some (rnd (5 / 1000)), ring_surface_brightness := Some (Fin 1)\<rparr>) 2
   \<and> (\<exists>r. ring (default_args\<lparr>ring_flux := Some (rnd (5 / 1000)), ring_surface_brightness := Some (Fin 1)\<rparr>) 2 = Inr r \<and> I r = Fin 1
         \<and> Fout r = fmul (Fin 1) (Aout r) \<and> Finn r = fmul (Fin 1) (Ain r))
   \<and> args.ring_surface_brightness (default_args\<lparr>ring_flux := Some (rnd (5 / 1000))\<rparr>) = None
   \<and> args.ring_flux (default_args\<lparr>ring_flux := Some (rnd (5 / 1000))\<rparr>) = Some (rnd (5 / 1000))
   \<and> ring ((default_args\<lparr>ring_flux := Some (rnd (5 / 1000))\<rparr>)\<lparr>args.flux := Fin 0\<rparr>) 2 = ring (default_args\<lparr>ring_flux := Some (rnd (5 / 1000))\<rparr>) 2
   \<and> (\<exists>r. ring (default_args\<lparr>ring_flux := Some (rnd (5 / 1000))\<rparr>) 2 = Inr r
         \<and> truediv (rnd (5 / 1000)) (Aring r) = Inr (I r)
         \<and> Fout r = fmul (I r) (Aout r) \<and> Finn r = fmul (I r) (Ain r))
   \<and> args.ring_surface_brightness default_args = None
   \<and> args.ring_flux default_args = None
   \<and> (\<exists>r. ring default_args 2 = Inr r
         \<and> truediv (args.flux default_args) (Aring r) = Inr (I r))
   \<and> (\<exists>cl. main_components (default_args\<lparr>n_rings := 1, ring_flux := Some (rnd (27 / 100000))\<rparr>) ''J2000'' = Inr cl
         \<and> cl \<noteq> [] \<and> component.flux (cl ! 0) = rnd (27 / 10 ^ 5))
   \<and> args.central_flux ((default_args\<lparr>n_rings := 1, ring_flux := Some (rnd (27 / 100000))\<rparr>)\<lparr>central_flux := Some (Fin 1)\<rparr>) = Some (Fin 1)
   \<and> args.ring_flux ((default_args\<lparr>n_rings := 1, ring_flux := Some (rnd (27 / 100000))\<rparr>)\<lparr>central_flux := Some (Fin 1)\<rparr>) = Some (rnd (27 / 100000))
   \<and> main_components ((default_args\<lparr>n_rings := 1, ring_flux := Some (rnd (27 / 100000))\<rparr>)\<lparr>central_flux := Some (Fin 1), args.flux := Fin 0\<rparr>) ''J2000''
       = main_components ((default_args\<lparr>n_rings := 1, ring_flux := Some (rnd (27 / 100000))\<rparr>)\<lparr>central_flux := Some (Fin 1)\<rparr>) ''J2000''"
proof -
  let ?b = "default_args\<lparr>ring_flux := Some (rnd (5 / 1000)), ring_surface_brightness := Some (Fin 1)\<rparr>"
  let ?p = "default_args\<lparr>ring_flux := Some (rnd (5 / 1000))\<rparr>"
  let ?s = "default_args\<lparr>n_rings := 1, ring_flux := Some (rnd (27 / 100000))\<rparr>"
  let ?c = "(default_args\<lparr>n_rings := 1, ring_flux := Some (rnd (27 / 100000))\<rparr>)\<lparr>central_flux := Some (Fin 1)\<rparr>"
  have b1: "args.ring_surface_brightness ?b = Some (Fin 1)" by simp
  obtain rb where rb: "ring ?b 2 = Inr rb" by (simp add: ring_precedence_sb_2 rnd_facts)
  from flux_precedence[where a = "?b" and rf = None and f = "Fin 0" and j = 2] b1
  have wb1: "ring (?b\<lparr>ring_flux := None, args.flux := Fin 0\<rparr>) 2 = ring ?b 2"
    and wb2: "\<forall>r. ring ?b 2 = Inr r \<longrightarrow>
        I r = Fin 1 \<and> Fout r = fmul (Fin 1) (Aout r) \<and> Finn r = fmul (Fin 1) (Ain r)"
    by blast+
  from wb2 rb have wb3: "\<exists>r. ring ?b 2 = Inr r \<and> I r = Fin 1
         \<and> Fout r = fmul (Fin 1) (Aout r) \<and> Finn r = fmul (Fin 1) (Ain r)" by blast
  have p1: "args.ring_surface_brightness ?p = None" by (simp add: default_args_def)
  have p2: "args.ring_flux ?p = Some (rnd (5 / 1000))" by simp
  obtain rp where rp: "ring ?p 2 = Inr rp" by (simp add: ring_precedence_2 rnd_facts)
  from flux_precedence[where a = "?p" and f = "Fin 0" and j = 2] p1 p2
  have wp1: "ring (?p\<lparr>args.flux := Fin 0\<rparr>) 2 = ring ?p 2"
    and wp2: "\<forall>r. ring ?p 2 = Inr r \<longrightarrow>
        truediv (rnd (5 / 1000)) (Aring r) = Inr (I r)
        \<and> Fout r = fmul (I r) (Aout r) \<and> Finn r = fmul (I r) (Ain r)"
    by blast+
  from wp2 rp have wp3: "\<exists>r. ring ?p 2 = Inr r
         \<and> truediv (rnd (5 / 1000)) (Aring r) = Inr (I r)
         \<and> Fout r = fmul (I r) (Aout r) \<and> Finn r = fmul (I r) (Ain r)" by blast
  have d1: "args.ring_surface_brightness default_args = None" by (simp add: default_args_def)
  have d2: "args.ring_flux default_args = None" by (simp add: default_args_def)
  obtain rd where rd: "ring default_args 2 = Inr rd" by (simp add: ring_default_2)
  from flux_precedence[where a = default_args and j = 2] d1 d2
  have "\<forall>r. ring default_args 2 = Inr r \<longrightarrow>
        truediv (args.flux default_args) (Aring r) = Inr (I r)
        \<and> Fout r = fmul (I r) (Aout r) \<and> Finn r = fmul (I r) (Ain r)" by blast
  with rd have wd: "\<exists>r. ring default_args 2 = Inr r
         \<and> truediv (args.flux default_args) (Aring r) = Inr (I r)" by blast
  obtain cl where cl: "main_components ?s ''J2000'' = Inr cl" using main_scenario by blast
  from flux_precedence[where a = "?s" and center_dir = "''J2000''"] cl
  have "cl \<noteq> [] \<and> component.flux (cl ! 0) =
      (case args.central_flux ?s of Some c \<Rightarrow> c | None \<Rightarrow> args.flux ?s)" by blast
  then have "cl \<noteq> [] \<and> component.flux (cl ! 0) = rnd (27 / 10 ^ 5)"
    by (simp add: default_args_def)
  with cl have wm: "\<exists>cl. main_components ?s ''J2000'' = Inr cl
         \<and> cl \<noteq> [] \<and> component.flux (cl ! 0) = rnd (27 / 10 ^ 5)" by blast
  have c1: "args.central_flux ?c = Some (Fin 1)" by simp
  have c2: "args.ring_flux ?c = Some (rnd (27 / 100000))" by simp
  from flux_precedence[where a = "?c" and f = "Fin 0" and center_dir = "''J2000''"] c1 c2
  have "main_components (?c\<lparr>args.flux := Fin 0\<rparr>) ''J2000'' = main_components ?c ''J2000''"
    by blast
  then have wc: "main_components (?s\<lparr>central_flux := Some (Fin 1), args.flux := Fin 0\<rparr>) ''J2000''
       = main_components ?c ''J2000''" by simp
  from b1 wb1 wb3 p1 p2 wp1 wp3 d1 d2 wd wm c1 c2 wc show ?thesis by blast
qed

subsection \<open>Degenerate rings\<close>




lemma fsub_self_Fin [simp]: "fsub (Fin x) (Fin x) = Fin 0"
  by (simp add: fsub_def)


lemma fdiv_NaN [simp]: "fdiv a NaN = NaN"
  by (cases a) simp_all

lemma fmul_NaN [simp]: "fmul NaN b = NaN"
  by simp








end
